theory Spec2Isabelle
  imports Complex_Main "HOL-Library.AList" "HOL-Library.Sublist"
begin

section \<open>Cost metering and budget enforcement: the data model\<close>

text \<open>
  The embedding follows \<^verbatim>\<open>src/cost/types.ts\<close>, \<^verbatim>\<open>pricing.ts\<close>, \<^verbatim>\<open>CostTracker.ts\<close>,
  \<^verbatim>\<open>CostStorage.ts\<close> and \<^verbatim>\<open>BudgetManager.ts\<close>.

  Conventions of the model.
  \<^item> A JavaScript \<^verbatim>\<open>number\<close> is a \<open>real\<close>: rounding of IEEE doubles, signed zeros and
    NaN inputs are outside the model. The one place where the code can leave the finite
    numbers from finite inputs, the division by a budget's limit, is modelled by the
    type \<open>num\<close> below, with the infinities and NaN that JavaScript produces there.
  \<^item> An optional field \<^verbatim>\<open>f?: T\<close> is a \<open>T option\<close>.
  \<^item> A timestamp (an ISO-8601 string in the source, compared after \<^verbatim>\<open>new Date(s)\<close>) is
    the instant it denotes, in milliseconds since the epoch, an \<open>int\<close>; strings that
    denote no date are outside the model.
  \<^item> The price catalogue is an object literal read by key; the keys an object inherits
    from its prototype are outside the model.
  \<^item> Identifiers of budgets, records and alerts are opaque in the source (strings that
    are only compared for equality); the model writes them as natural numbers.
  \<^item> A \<^verbatim>\<open>Map\<close> whose iteration order the code observes is an association list with
    distinct keys in insertion order (\<open>AList.update\<close> is \<^verbatim>\<open>Map.set\<close>: a present key
    keeps its place); a \<^verbatim>\<open>Map\<close> that is only read by key is a map \<open>'k \<rightharpoonup> 'v\<close>.
  \<^item> Field names that two interfaces share carry a suffix for the interface.
\<close>

type_synonym ident = nat
type_synonym instant = int

datatype ModelProvider = OpenAI | Anthropic | AzureOpenAI | Google | Cohere | Custom

record ModelPricing =
  model :: string
  provider :: ModelProvider
  inputCostPer1K :: real
  outputCostPer1K :: real
  imageCost :: "real option"
  audioCostPerSecond :: "real option"
  lastUpdated :: string

text \<open>\<^verbatim>\<open>Partial<ModelPricing>\<close>: every field optional.\<close>

record PricingPatch =
  model_p :: "string option"
  provider_p :: "ModelProvider option"
  inputCostPer1K_p :: "real option"
  outputCostPer1K_p :: "real option"
  imageCost_p :: "real option"
  audioCostPerSecond_p :: "real option"
  lastUpdated_p :: "string option"

record TokenUsage =
  inputTokens :: real
  outputTokens :: real
  totalTokens :: real
  images :: "real option"
  audioDuration :: "real option"

record CostBreakdown =
  inputCost :: real
  outputCost :: real
  imageCost_b :: "real option"
  audioCost :: "real option"

record CostEstimate =
  estimatedCost :: real
  model_e :: string
  provider_e :: ModelProvider
  estimatedTokens :: TokenUsage
  breakdown_e :: CostBreakdown
  timestamp_e :: instant

record CostRecord =
  id_r :: ident
  requestId :: string
  agentId :: string
  model_r :: string
  provider_r :: ModelProvider
  actualTokens :: TokenUsage
  actualCost :: real
  breakdown_r :: CostBreakdown
  timestamp_r :: instant
  metadata :: "(string \<times> string) list option"

record CostTrackerConfig =
  enabled_c :: bool
  persistRecords :: bool
  customPricing_c :: "(string \<times> PricingPatch) list option"
  defaultProvider :: "ModelProvider option"
  enableBudgets :: bool
  enableAlerts :: bool

record CostTracker =
  config :: CostTrackerConfig
  customPricing :: "string \<rightharpoonup> ModelPricing"

section \<open>The pricing catalogue (\<^verbatim>\<open>pricing.ts\<close>)\<close>

definition entry :: "string \<Rightarrow> ModelProvider \<Rightarrow> real \<Rightarrow> real \<Rightarrow> real option \<Rightarrow> string \<times> ModelPricing" where
  "entry m p i out img =
     (m, \<lparr>model = m, provider = p, inputCostPer1K = i, outputCostPer1K = out,
          imageCost = img, audioCostPerSecond = None, lastUpdated = ''2026-01-31''\<rparr>)"

text \<open>\<^verbatim>\<open>MODEL_PRICING\<close>, in the order of the object literal (the order of \<^verbatim>\<open>Object.entries\<close>).\<close>

definition MODEL_PRICING :: "(string \<times> ModelPricing) list" where
  "MODEL_PRICING =
    [entry ''gpt-4'' OpenAI 0.03 0.06 None,
     entry ''gpt-4-32k'' OpenAI 0.06 0.12 None,
     entry ''gpt-4-turbo'' OpenAI 0.01 0.03 None,
     entry ''gpt-4-turbo-preview'' OpenAI 0.01 0.03 None,
     entry ''gpt-4-vision-preview'' OpenAI 0.01 0.03 (Some 0.00765),
     entry ''gpt-3.5-turbo'' OpenAI 0.0005 0.0015 None,
     entry ''gpt-3.5-turbo-16k'' OpenAI 0.003 0.004 None,
     entry ''claude-3-opus-20240229'' Anthropic 0.015 0.075 None,
     entry ''claude-3-sonnet-20240229'' Anthropic 0.003 0.015 None,
     entry ''claude-3-haiku-20240307'' Anthropic 0.00025 0.00125 None,
     entry ''claude-2.1'' Anthropic 0.008 0.024 None,
     entry ''claude-2.0'' Anthropic 0.008 0.024 None,
     entry ''claude-instant-1.2'' Anthropic 0.0008 0.0024 None,
     entry ''gemini-pro'' Google 0.00025 0.0005 None,
     entry ''gemini-pro-vision'' Google 0.00025 0.0005 (Some 0.0025),
     entry ''palm-2'' Google 0.0005 0.0005 None,
     entry ''command'' Cohere 0.001 0.002 None,
     entry ''command-light'' Cohere 0.0003 0.0006 None,
     entry ''command-nightly'' Cohere 0.001 0.002 None]"

text \<open>
  \<^verbatim>\<open>String.prototype.toLowerCase\<close> and \<^verbatim>\<open>trim\<close> on the characters a \<open>string\<close> of
  HOL has (bytes): the letters A to Z are folded (adding 32 to a code between 65 and 90
  sets its bit of weight 32), and the ASCII white space is trimmed.
\<close>

fun lowerChar :: "char \<Rightarrow> char" where
  "lowerChar (Char b0 b1 b2 b3 b4 b5 b6 b7) =
     (let n = (of_char (Char b0 b1 b2 b3 b4 b5 b6 b7) :: nat)
      in if 65 \<le> n \<and> n \<le> 90 then Char b0 b1 b2 b3 b4 True b6 b7
         else Char b0 b1 b2 b3 b4 b5 b6 b7)"

definition toLowerCase :: "string \<Rightarrow> string" where
  "toLowerCase s = map lowerChar s"

definition isSpace :: "char \<Rightarrow> bool" where
  "isSpace c = (let n = (of_char c :: nat) in n = 32 \<or> (9 \<le> n \<and> n \<le> 13))"

definition trim :: "string \<Rightarrow> string" where
  "trim s = rev (dropWhile isSpace (rev (dropWhile isSpace s)))"

definition startsWith :: "string \<Rightarrow> string \<Rightarrow> bool" where
  "startsWith s p = prefix p s"

text \<open>
  \<^verbatim>\<open>getModelPricing(model, provider?)\<close>: the exact key, then a key equal to the model up
  to case, then the first key that is a prefix of the model or has it as a prefix (and
  whose provider is the one asked for, when one is given).
\<close>

definition getModelPricing :: "string \<Rightarrow> ModelProvider option \<Rightarrow> ModelPricing option" where
  "getModelPricing m prov =
     (case map_of MODEL_PRICING m of
        Some pricing \<Rightarrow> Some pricing
      | None \<Rightarrow>
         (let normalizedModel = trim (toLowerCase m) in
          case find (\<lambda>(key, pricing). toLowerCase key = normalizedModel) MODEL_PRICING of
            Some (key, pricing) \<Rightarrow> Some pricing
          | None \<Rightarrow>
             (case find (\<lambda>(key, pricing).
                      (startsWith normalizedModel (toLowerCase key)
                         \<or> startsWith (toLowerCase key) normalizedModel)
                      \<and> (prov = None \<or> prov = Some (provider pricing))) MODEL_PRICING of
                Some (key, pricing) \<Rightarrow> Some pricing
              | None \<Rightarrow> None)))"

section \<open>The cost calculator (\<^verbatim>\<open>CostTracker.ts\<close>)\<close>

text \<open>\<^verbatim>\<open>{ ...base, ...patch }\<close>: a field present in the patch overwrites.\<close>

definition orElse :: "'a option \<Rightarrow> 'a \<Rightarrow> 'a" where
  "orElse x d = (case x of None \<Rightarrow> d | Some v \<Rightarrow> v)"

definition mergePricing :: "ModelPricing \<Rightarrow> PricingPatch \<Rightarrow> ModelPricing" where
  "mergePricing base p =
     \<lparr>model = orElse (model_p p) (model base),
      provider = orElse (provider_p p) (provider base),
      inputCostPer1K = orElse (inputCostPer1K_p p) (inputCostPer1K base),
      outputCostPer1K = orElse (outputCostPer1K_p p) (outputCostPer1K base),
      imageCost = (case imageCost_p p of None \<Rightarrow> imageCost base | Some v \<Rightarrow> Some v),
      audioCostPerSecond =
        (case audioCostPerSecond_p p of None \<Rightarrow> audioCostPerSecond base | Some v \<Rightarrow> Some v),
      lastUpdated = orElse (lastUpdated_p p) (lastUpdated base)\<rparr>"

text \<open>A number that JavaScript takes for true: present and not zero.\<close>

definition truthy :: "real option \<Rightarrow> bool" where
  "truthy x = (case x of None \<Rightarrow> False | Some v \<Rightarrow> v \<noteq> 0)"

text \<open>\<^verbatim>\<open>x || 0\<close> on an optional number.\<close>

definition orZero :: "real option \<Rightarrow> real" where
  "orZero x = (case x of None \<Rightarrow> 0 | Some v \<Rightarrow> v)"


definition DEFAULT_CONFIG :: CostTrackerConfig where
  "DEFAULT_CONFIG =
     \<lparr>enabled_c = True, persistRecords = True, customPricing_c = None,
      defaultProvider = None, enableBudgets = True, enableAlerts = True\<rparr>"

text \<open>
  The constructor, applied to a complete configuration: custom prices are loaded for the
  models the catalogue knows.
\<close>

definition newCostTracker :: "CostTrackerConfig \<Rightarrow> CostTracker" where
  "newCostTracker cfg =
     \<lparr>config = cfg,
      customPricing =
        (case customPricing_c cfg of
           None \<Rightarrow> Map.empty
         | Some entries \<Rightarrow>
             foldl (\<lambda>cp (m, pricing).
                      case getModelPricing m None of
                        Some basePricing \<Rightarrow> cp(m \<mapsto> mergePricing basePricing pricing)
                      | None \<Rightarrow> cp)
               Map.empty entries)\<rparr>"


definition removeCustomPricing :: "CostTracker \<Rightarrow> string \<Rightarrow> CostTracker" where
  "removeCustomPricing t m = t\<lparr>customPricing := (customPricing t)(m := None)\<rparr>"

text \<open>
  \<^verbatim>\<open>this.customPricing.get(model) || getModelPricing(model, provider)\<close>, the price entry
  that both \<^verbatim>\<open>estimateCost\<close> and \<^verbatim>\<open>calculateActualCost\<close> resolve.
\<close>

definition resolvePricing :: "CostTracker \<Rightarrow> string \<Rightarrow> ModelProvider option \<Rightarrow> ModelPricing option" where
  "resolvePricing t m prov =
     (case customPricing t m of Some pricing \<Rightarrow> Some pricing | None \<Rightarrow> getModelPricing m prov)"

definition getPricing :: "CostTracker \<Rightarrow> string \<Rightarrow> ModelPricing option" where
  "getPricing t m = resolvePricing t m None"

text \<open>
  \<^verbatim>\<open>tokens.images && pricing.imageCost ? tokens.images * pricing.imageCost : 0\<close>, and the
  same expression for audio.
\<close>

definition auxCost :: "real option \<Rightarrow> real option \<Rightarrow> real" where
  "auxCost units price =
     (if truthy units \<and> truthy price then orZero units * orZero price else 0)"

text \<open>\<^verbatim>\<open>...(c > 0 && { f: c })\<close> in the breakdown.\<close>

definition keepPositive :: "real \<Rightarrow> real option" where
  "keepPositive c = (if c > 0 then Some c else None)"

definition createZeroCostEstimate :: "instant \<Rightarrow> string \<Rightarrow> ModelProvider \<Rightarrow> TokenUsage \<Rightarrow> CostEstimate" where
  "createZeroCostEstimate now m prov tokens =
     \<lparr>estimatedCost = 0, model_e = m, provider_e = prov, estimatedTokens = tokens,
      breakdown_e = \<lparr>inputCost = 0, outputCost = 0, imageCost_b = None, audioCost = None\<rparr>,
      timestamp_e = now\<rparr>"

definition estimateCost :: "CostTracker \<Rightarrow> instant \<Rightarrow> string \<Rightarrow> TokenUsage \<Rightarrow> ModelProvider option \<Rightarrow> CostEstimate" where
  "estimateCost t now m tokens prov =
     (if \<not> enabled_c (config t) then createZeroCostEstimate now m (orElse prov OpenAI) tokens
      else case resolvePricing t m prov of
        None \<Rightarrow> createZeroCostEstimate now m (orElse prov Custom) tokens
      | Some pricing \<Rightarrow>
          (let inputCost' = (inputTokens tokens / 1000) * inputCostPer1K pricing;
               outputCost' = (outputTokens tokens / 1000) * outputCostPer1K pricing;
               imageCost' = auxCost (images tokens) (imageCost pricing);
               audioCost' = auxCost (audioDuration tokens) (audioCostPerSecond pricing);
               estimatedCost' = inputCost' + outputCost' + imageCost' + audioCost'
           in \<lparr>estimatedCost = estimatedCost', model_e = model pricing,
               provider_e = provider pricing, estimatedTokens = tokens,
               breakdown_e = \<lparr>inputCost = inputCost', outputCost = outputCost',
                               imageCost_b = keepPositive imageCost',
                               audioCost = keepPositive audioCost'\<rparr>,
               timestamp_e = now\<rparr>))"

text \<open>
  Modelled from the spec: \<^verbatim>\<open>generateId\<close> of \<^verbatim>\<open>src/cost/utils.ts\<close> is missing from the
  sources. The spec says of it that ids are assigned by the engine and that each call
  allocates a fresh unique id, "even if all other fields are identical across calls".
  The model is a counter: the id returned is the counter, which is then incremented.
\<close>

definition generateId :: "nat \<Rightarrow> ident \<times> nat" where
  "generateId g = (g, Suc g)"

definition createZeroCostRecord ::
  "instant \<Rightarrow> nat \<Rightarrow> string \<Rightarrow> string \<Rightarrow> string \<Rightarrow> ModelProvider \<Rightarrow> TokenUsage \<Rightarrow> CostRecord \<times> nat" where
  "createZeroCostRecord now g req agent m prov tokens =
     (let (i, g') = generateId g
      in (\<lparr>id_r = i, requestId = req, agentId = agent, model_r = m, provider_r = prov,
           actualTokens = tokens, actualCost = 0,
           breakdown_r = \<lparr>inputCost = 0, outputCost = 0, imageCost_b = None, audioCost = None\<rparr>,
           timestamp_r = now, metadata = None\<rparr>, g'))"

definition calculateActualCost ::
  "CostTracker \<Rightarrow> instant \<Rightarrow> nat \<Rightarrow> string \<Rightarrow> string \<Rightarrow> string \<Rightarrow> TokenUsage \<Rightarrow>
     ModelProvider option \<Rightarrow> (string \<times> string) list option \<Rightarrow> CostRecord \<times> nat" where
  "calculateActualCost t now g req agent m tokens prov meta =
     (if \<not> enabled_c (config t)
      then createZeroCostRecord now g req agent m (orElse prov OpenAI) tokens
      else case resolvePricing t m prov of
        None \<Rightarrow> createZeroCostRecord now g req agent m (orElse prov Custom) tokens
      | Some pricing \<Rightarrow>
          (let inputCost' = (inputTokens tokens / 1000) * inputCostPer1K pricing;
               outputCost' = (outputTokens tokens / 1000) * outputCostPer1K pricing;
               imageCost' = auxCost (images tokens) (imageCost pricing);
               audioCost' = auxCost (audioDuration tokens) (audioCostPerSecond pricing);
               actualCost' = inputCost' + outputCost' + imageCost' + audioCost';
               (i, g') = generateId g
           in (\<lparr>id_r = i, requestId = req, agentId = agent, model_r = model pricing,
                provider_r = provider pricing, actualTokens = tokens, actualCost = actualCost',
                breakdown_r = \<lparr>inputCost = inputCost', outputCost = outputCost',
                                imageCost_b = keepPositive imageCost',
                                audioCost = keepPositive audioCost'\<rparr>,
                timestamp_r = now, metadata = meta\<rparr>, g')))"

text \<open>A sequence of \<^verbatim>\<open>calculateActualCost\<close> calls on one tracker, each with its own arguments.\<close>

record FinalizeCall =
  call_now :: instant
  call_requestId :: string
  call_agentId :: string
  call_model :: string
  call_tokens :: TokenUsage
  call_provider :: "ModelProvider option"
  call_metadata :: "(string \<times> string) list option"

fun calculateActualCosts :: "CostTracker \<Rightarrow> nat \<Rightarrow> FinalizeCall list \<Rightarrow> CostRecord list \<times> nat" where
  "calculateActualCosts t g [] = ([], g)"
| "calculateActualCosts t g (c # cs) =
     (let (r, g') = calculateActualCost t (call_now c) g (call_requestId c) (call_agentId c)
                      (call_model c) (call_tokens c) (call_provider c) (call_metadata c);
          (rs, g'') = calculateActualCosts t g' cs
      in (r # rs, g''))"



section \<open>The usage ledger (\<^verbatim>\<open>CostStorage.ts\<close>, \<^verbatim>\<open>InMemoryCostStorage\<close>)\<close>

text \<open>The field \<^verbatim>\<open>records: Map<string, CostRecord>\<close>, in insertion order.\<close>

type_synonym CostStorage = "(ident \<times> CostRecord) list"

record TokenTotals =
  input_t :: real
  output_t :: real
  total_t :: real

record CostSummary =
  totalCost :: real
  totalRequests :: nat
  averageCostPerRequest :: real
  byModel :: "string \<rightharpoonup> real"
  byProvider :: "ModelProvider \<rightharpoonup> real"
  byAgent :: "string \<rightharpoonup> real"
  period_s :: "instant \<times> instant"
  totalTokens_s :: TokenTotals

definition newStorage :: CostStorage where
  "newStorage = []"

definition store :: "CostStorage \<Rightarrow> CostRecord \<Rightarrow> CostStorage" where
  "store s r = AList.update (id_r r) r s"

definition get :: "CostStorage \<Rightarrow> ident \<Rightarrow> CostRecord option" where
  "get s i = map_of s i"

text \<open>\<^verbatim>\<open>Array.from(this.records.values())\<close>.\<close>

definition records :: "CostStorage \<Rightarrow> CostRecord list" where
  "records s = map snd s"

definition getByRequestId :: "CostStorage \<Rightarrow> string \<Rightarrow> CostRecord list" where
  "getByRequestId s req = filter (\<lambda>r. requestId r = req) (records s)"

definition getByAgentId :: "CostStorage \<Rightarrow> string \<Rightarrow> instant option \<Rightarrow> instant option \<Rightarrow> CostRecord list" where
  "getByAgentId s agent startDate endDate =
     (let rs = filter (\<lambda>r. agentId r = agent) (records s);
          rs = (case startDate of None \<Rightarrow> rs
                | Some start \<Rightarrow> filter (\<lambda>r. timestamp_r r \<ge> start) rs);
          rs = (case endDate of None \<Rightarrow> rs
                | Some e \<Rightarrow> filter (\<lambda>r. timestamp_r r \<le> e) rs)
      in rs)"

definition getByDateRange :: "CostStorage \<Rightarrow> instant \<Rightarrow> instant \<Rightarrow> CostRecord list" where
  "getByDateRange s startDate endDate =
     filter (\<lambda>r. timestamp_r r \<ge> startDate \<and> timestamp_r r \<le> endDate) (records s)"

text \<open>
  \<^verbatim>\<open>records.forEach(r => { acc[k(r)] = (acc[k(r)] || 0) + r.actualCost })\<close> on an object
  that starts empty.
\<close>

definition accumulateBy :: "(CostRecord \<Rightarrow> 'k) \<Rightarrow> CostRecord list \<Rightarrow> ('k \<rightharpoonup> real)" where
  "accumulateBy key rs =
     foldl (\<lambda>acc r. acc(key r \<mapsto> orZero (acc (key r)) + actualCost r)) Map.empty rs"

text \<open>
  \<^verbatim>\<open>getSummary(startDate, endDate, agentId?)\<close>. The test \<^verbatim>\<open>if (agentId)\<close> takes the
  empty string for absent.
\<close>

definition getSummary :: "CostStorage \<Rightarrow> instant \<Rightarrow> instant \<Rightarrow> string option \<Rightarrow> CostSummary" where
  "getSummary s startDate endDate agent =
     (let rs = getByDateRange s startDate endDate;
          rs = (case agent of
                  None \<Rightarrow> rs
                | Some a \<Rightarrow> if a = [] then rs else filter (\<lambda>r. agentId r = a) rs);
          totalCost' = foldl (\<lambda>sum r. sum + actualCost r) 0 rs;
          totalRequests' = length rs;
          averageCostPerRequest' =
            (if totalRequests' > 0 then totalCost' / real totalRequests' else 0)
      in \<lparr>totalCost = totalCost',
          totalRequests = totalRequests',
          averageCostPerRequest = averageCostPerRequest',
          byModel = accumulateBy model_r rs,
          byProvider = accumulateBy provider_r rs,
          byAgent = accumulateBy agentId rs,
          period_s = (startDate, endDate),
          totalTokens_s =
            \<lparr>input_t = foldl (\<lambda>sum r. sum + inputTokens (actualTokens r)) 0 rs,
             output_t = foldl (\<lambda>sum r. sum + outputTokens (actualTokens r)) 0 rs,
             total_t = foldl (\<lambda>sum r. sum + totalTokens (actualTokens r)) 0 rs\<rparr>\<rparr>)"

definition deleteOlderThan :: "CostStorage \<Rightarrow> instant \<Rightarrow> CostStorage \<times> nat" where
  "deleteOlderThan s beforeDate =
     (filter (\<lambda>(i, r). \<not> timestamp_r r < beforeDate) s,
      length (filter (\<lambda>(i, r). timestamp_r r < beforeDate) s))"

definition clear :: "CostStorage \<Rightarrow> CostStorage" where
  "clear s = []"

definition size_s :: "CostStorage \<Rightarrow> nat" where
  "size_s s = length s"

section \<open>The budget manager (\<^verbatim>\<open>BudgetManager.ts\<close>)\<close>

datatype BudgetPeriod = Hourly | Daily | Weekly | Monthly | Total

datatype BudgetAction = Alert | Block | Throttle

datatype ScopeType = Agent | Project | Organization

datatype Severity = Info | Warning | Critical

record BudgetScope =
  type_s :: ScopeType
  id_s :: string

text \<open>\<^verbatim>\<open>Omit<BudgetConfig, 'id' | 'createdAt' | 'updatedAt'>\<close>, the argument of \<^verbatim>\<open>createBudget\<close>.\<close>

record BudgetInput =
  name :: string
  limit :: real
  period :: BudgetPeriod
  alertThresholds :: "real list"
  action :: BudgetAction
  scope :: "BudgetScope option"
  enabled :: bool

record BudgetConfig = BudgetInput +
  id_b :: ident
  createdAt :: instant
  updatedAt :: instant

text \<open>
  \<^verbatim>\<open>Partial<Omit<BudgetConfig, ...>>\<close>, the argument of \<^verbatim>\<open>updateBudget\<close>; for the
  optional scope, \<open>Some None\<close> is a patch that carries \<^verbatim>\<open>scope: undefined\<close>.
\<close>

record BudgetPatch =
  name_p :: "string option"
  limit_p :: "real option"
  period_p :: "BudgetPeriod option"
  alertThresholds_p :: "real list option"
  action_p :: "BudgetAction option"
  scope_p :: "BudgetScope option option"
  enabled_p :: "bool option"

text \<open>
  The quotient \<^verbatim>\<open>(spending / budget.limit) * 100\<close>. The limit is not checked anywhere,
  so it can be zero: JavaScript then yields an infinity or NaN, which compare as below.
\<close>

datatype num = Fin real | PosInf | NegInf | NaN

definition percentOf :: "real \<Rightarrow> real \<Rightarrow> num" where
  "percentOf a b =
     (if b \<noteq> 0 then Fin ((a / b) * 100)
      else if a > 0 then PosInf else if a < 0 then NegInf else NaN)"

text \<open>\<^verbatim>\<open>p >= t\<close> and \<^verbatim>\<open>p < t\<close> for a finite \<^verbatim>\<open>t\<close>.\<close>

fun geq :: "num \<Rightarrow> real \<Rightarrow> bool" where
  "geq (Fin x) t = (x \<ge> t)"
| "geq PosInf t = True"
| "geq NegInf t = False"
| "geq NaN t = False"

fun less :: "num \<Rightarrow> real \<Rightarrow> bool" where
  "less (Fin x) t = (x < t)"
| "less PosInf t = False"
| "less NegInf t = True"
| "less NaN t = False"

record BudgetStatus =
  budget :: BudgetConfig
  currentSpending :: real
  remaining :: real
  percentageUsed :: num
  isExceeded :: bool
  activeAlerts :: "real list"
  periodStart :: instant
  periodEnd :: instant
  lastUpdated_s :: instant

text \<open>
  The text of an alert interpolates the budget's name, the threshold, the spending and
  the limit; the model keeps the four values and leaves the rendering of numbers out.
\<close>

record AlertMessage =
  name_m :: string
  threshold_m :: real
  spending_m :: real
  limit_m :: real

record CostAlert =
  id_a :: ident
  budgetId :: ident
  threshold :: real
  currentSpending_a :: real
  limit_a :: real
  message :: AlertMessage
  severity :: Severity
  timestamp_a :: instant
  acknowledged :: bool

record BudgetEnforcementResult =
  allowed :: bool
  blockedBy :: "BudgetConfig option"
  alerts_res :: "CostAlert list"
  status :: "BudgetStatus option"

text \<open>
  The manager: \<^verbatim>\<open>budgets\<close> and \<^verbatim>\<open>alerts\<close> are the two \<^verbatim>\<open>Map\<close>s, \<^verbatim>\<open>storage\<close> is the
  ledger the manager was constructed on.
\<close>

record BudgetManager =
  budgets :: "(ident \<times> BudgetConfig) list"
  alerts :: "(ident \<times> CostAlert list) list"
  storage :: CostStorage

text \<open>
  What a call reads from the host with \<^verbatim>\<open>new Date()\<close>: the current instant and, for
  \<^verbatim>\<open>getPeriodDates\<close>, the starts of the current hour, day, week (Sunday) and month in
  local time, which the source obtains with \<^verbatim>\<open>setMinutes\<close>, \<^verbatim>\<open>setHours\<close>,
  \<^verbatim>\<open>setDate\<close> and the \<^verbatim>\<open>Date\<close> constructor. One reading serves a whole call.
\<close>

record Clock =
  current :: instant
  startOfHour :: instant
  startOfDay :: instant
  startOfWeek :: instant
  startOfMonth :: instant

definition newBudgetManager :: "CostStorage \<Rightarrow> BudgetManager" where
  "newBudgetManager s = \<lparr>budgets = [], alerts = [], storage = s\<rparr>"

definition createBudget :: "instant \<Rightarrow> nat \<Rightarrow> BudgetInput \<Rightarrow> BudgetManager \<Rightarrow> BudgetConfig \<times> BudgetManager \<times> nat" where
  "createBudget t g cfg m =
     (let (i, g') = generateId g;
          b = \<lparr>name = name cfg, limit = limit cfg, period = period cfg,
               alertThresholds = alertThresholds cfg, action = action cfg,
               scope = scope cfg, enabled = enabled cfg,
               id_b = i, createdAt = t, updatedAt = t\<rparr>
      in (b, m\<lparr>budgets := AList.update (id_b b) b (budgets m),
                alerts := AList.update (id_b b) [] (alerts m)\<rparr>, g'))"

definition updateBudget :: "instant \<Rightarrow> ident \<Rightarrow> BudgetPatch \<Rightarrow> BudgetManager \<Rightarrow> BudgetConfig option \<times> BudgetManager" where
  "updateBudget t i updates m =
     (case map_of (budgets m) i of
        None \<Rightarrow> (None, m)
      | Some b \<Rightarrow>
          (let updated = \<lparr>name = orElse (name_p updates) (name b),
                          limit = orElse (limit_p updates) (limit b),
                          period = orElse (period_p updates) (period b),
                          alertThresholds = orElse (alertThresholds_p updates) (alertThresholds b),
                          action = orElse (action_p updates) (action b),
                          scope = orElse (scope_p updates) (scope b),
                          enabled = orElse (enabled_p updates) (enabled b),
                          id_b = id_b b, createdAt = createdAt b, updatedAt = t\<rparr>
           in (Some updated, m\<lparr>budgets := AList.update i updated (budgets m)\<rparr>)))"

definition deleteBudget :: "ident \<Rightarrow> BudgetManager \<Rightarrow> bool \<times> BudgetManager" where
  "deleteBudget i m =
     (map_of (budgets m) i \<noteq> None,
      m\<lparr>alerts := AList.delete i (alerts m), budgets := AList.delete i (budgets m)\<rparr>)"

definition getBudget :: "BudgetManager \<Rightarrow> ident \<Rightarrow> BudgetConfig option" where
  "getBudget m i = map_of (budgets m) i"

definition getAllBudgets :: "BudgetManager \<Rightarrow> BudgetConfig list" where
  "getAllBudgets m = map snd (budgets m)"

definition getBudgetsByScope :: "BudgetManager \<Rightarrow> ScopeType \<Rightarrow> string \<Rightarrow> BudgetConfig list" where
  "getBudgetsByScope m scopeType scopeId =
     filter (\<lambda>b. case scope b of None \<Rightarrow> False
                 | Some s \<Rightarrow> type_s s = scopeType \<and> id_s s = scopeId) (map snd (budgets m))"

definition getAlerts :: "BudgetManager \<Rightarrow> ident \<Rightarrow> CostAlert list" where
  "getAlerts m i = (case map_of (alerts m) i of None \<Rightarrow> [] | Some as \<Rightarrow> as)"

definition clearAlerts :: "ident \<Rightarrow> BudgetManager \<Rightarrow> BudgetManager" where
  "clearAlerts i m = m\<lparr>alerts := AList.update i [] (alerts m)\<rparr>"

definition getRelevantBudgets :: "BudgetManager \<Rightarrow> string \<Rightarrow> BudgetConfig list" where
  "getRelevantBudgets m agent =
     filter (\<lambda>b. if \<not> enabled b then False
                 else case scope b of
                        None \<Rightarrow> True
                      | Some s \<Rightarrow> if type_s s = Agent \<and> id_s s = agent then True else False)
       (map snd (budgets m))"

definition getPeriodDates :: "Clock \<Rightarrow> BudgetPeriod \<Rightarrow> instant \<times> instant" where
  "getPeriodDates clk p =
     (case p of
        Hourly \<Rightarrow> startOfHour clk
      | Daily \<Rightarrow> startOfDay clk
      | Weekly \<Rightarrow> startOfWeek clk
      | Monthly \<Rightarrow> startOfMonth clk
      | Total \<Rightarrow> 0,
      current clk)"

definition createAlert :: "instant \<Rightarrow> nat \<Rightarrow> BudgetConfig \<Rightarrow> real \<Rightarrow> real \<Rightarrow> CostAlert \<times> nat" where
  "createAlert t g b thr spending =
     (let sev = (if thr \<ge> 100 then Critical else if thr \<ge> 90 then Warning else Info);
          (i, g') = generateId g
      in (\<lparr>id_a = i, budgetId = id_b b, threshold = thr, currentSpending_a = spending,
           limit_a = limit b,
           message = \<lparr>name_m = name b, threshold_m = thr, spending_m = spending,
                       limit_m = limit b\<rparr>,
           severity = sev, timestamp_a = t, acknowledged = False\<rparr>, g'))"

definition addAlert :: "ident \<Rightarrow> CostAlert \<Rightarrow> BudgetManager \<Rightarrow> BudgetManager" where
  "addAlert i a m = m\<lparr>alerts := AList.update i (getAlerts m i @ [a]) (alerts m)\<rparr>"

definition getBudgetStatus :: "BudgetManager \<Rightarrow> Clock \<Rightarrow> ident \<Rightarrow> BudgetStatus option" where
  "getBudgetStatus m clk i =
     (case map_of (budgets m) i of
        None \<Rightarrow> None
      | Some b \<Rightarrow>
          (let (start, end') = getPeriodDates clk (period b);
               rs = getByDateRange (storage m) start end';
               rs = (case scope b of
                       None \<Rightarrow> rs
                     | Some s \<Rightarrow>
                         if type_s s = Agent then filter (\<lambda>r. agentId r = id_s s) rs else rs);
               currentSpending' = foldl (\<lambda>sum r. sum + actualCost r) 0 rs;
               remaining' = max 0 (limit b - currentSpending');
               percentageUsed' = percentOf currentSpending' (limit b);
               isExceeded' = (currentSpending' > limit b);
               activeAlerts' = filter (\<lambda>t. geq percentageUsed' t) (alertThresholds b)
           in Some \<lparr>budget = b, currentSpending = currentSpending', remaining = remaining',
                    percentageUsed = percentageUsed', isExceeded = isExceeded',
                    activeAlerts = activeAlerts', periodStart = start, periodEnd = end',
                    lastUpdated_s = current clk\<rparr>))"

text \<open>
  The loops of \<^verbatim>\<open>checkBudget\<close>. Their state is the manager (whose alert lists grow),
  the id counter and the local array \<^verbatim>\<open>alerts\<close> of the call.
\<close>

type_synonym CheckState = "BudgetManager \<times> nat \<times> CostAlert list"

fun checkThresholds :: "instant \<Rightarrow> BudgetConfig \<Rightarrow> real \<Rightarrow> num \<Rightarrow> num \<Rightarrow> real list \<Rightarrow> CheckState \<Rightarrow> CheckState" where
  "checkThresholds t b projectedSpending projectedPercentage used [] st = st"
| "checkThresholds t b projectedSpending projectedPercentage used (thr # thrs) (m, g, out) =
     (if geq projectedPercentage thr \<and> less used thr
      then (let (a, g') = createAlert t g b thr projectedSpending
            in checkThresholds t b projectedSpending projectedPercentage used thrs
                 (addAlert (id_b b) a m, g', out @ [a]))
      else checkThresholds t b projectedSpending projectedPercentage used thrs (m, g, out))"

fun checkBudgetLoop :: "Clock \<Rightarrow> real \<Rightarrow> BudgetConfig list \<Rightarrow> CheckState \<Rightarrow> BudgetConfig option \<times> CheckState" where
  "checkBudgetLoop clk estimated [] st = (None, st)"
| "checkBudgetLoop clk estimated (b # rest) (m, g, out) =
     (if \<not> enabled b then checkBudgetLoop clk estimated rest (m, g, out)
      else case getBudgetStatus m clk (id_b b) of
        None \<Rightarrow> checkBudgetLoop clk estimated rest (m, g, out)
      | Some st \<Rightarrow>
          (let projectedSpending = currentSpending st + estimated;
               projectedPercentage = percentOf projectedSpending (limit b);
               st' = checkThresholds (current clk) b projectedSpending projectedPercentage
                       (percentageUsed st) (alertThresholds b) (m, g, out)
           in if projectedSpending > limit b \<and> action b = Block then (Some b, st')
              else checkBudgetLoop clk estimated rest st'))"

text \<open>The body of \<^verbatim>\<open>checkBudget\<close> after \<^verbatim>\<open>relevantBudgets\<close> is computed.\<close>

definition checkBudgetOn :: "Clock \<Rightarrow> real \<Rightarrow> BudgetConfig list \<Rightarrow> BudgetManager \<times> nat \<Rightarrow> BudgetEnforcementResult \<times> BudgetManager \<times> nat" where
  "checkBudgetOn clk estimated relevantBudgets mg =
     (let (blocked, m', g', out) = checkBudgetLoop clk estimated relevantBudgets (fst mg, snd mg, [])
      in (\<lparr>allowed = (blocked = None), blockedBy = blocked, alerts_res = out,
           status = (case blocked of None \<Rightarrow> None | Some b \<Rightarrow> getBudgetStatus m' clk (id_b b))\<rparr>,
          m', g'))"

definition checkBudget :: "Clock \<Rightarrow> string \<Rightarrow> real \<Rightarrow> BudgetManager \<times> nat \<Rightarrow> BudgetEnforcementResult \<times> BudgetManager \<times> nat" where
  "checkBudget clk agent estimated mg =
     checkBudgetOn clk estimated (getRelevantBudgets (fst mg) agent) mg"

text \<open>The loops of \<^verbatim>\<open>recordCost\<close>; \<^verbatim>\<open>existingThresholds\<close> is computed once per budget.\<close>

fun recordThresholds :: "instant \<Rightarrow> BudgetConfig \<Rightarrow> BudgetStatus \<Rightarrow> real list \<Rightarrow> real list \<Rightarrow> BudgetManager \<times> nat \<Rightarrow> BudgetManager \<times> nat" where
  "recordThresholds t b st existingThresholds [] mg = mg"
| "recordThresholds t b st existingThresholds (thr # thrs) (m, g) =
     (if geq (percentageUsed st) thr \<and> thr \<notin> set existingThresholds
      then (let (a, g') = createAlert t g b thr (currentSpending st)
            in recordThresholds t b st existingThresholds thrs (addAlert (id_b b) a m, g'))
      else recordThresholds t b st existingThresholds thrs (m, g))"

fun recordCostLoop :: "Clock \<Rightarrow> BudgetConfig list \<Rightarrow> BudgetManager \<times> nat \<Rightarrow> BudgetManager \<times> nat" where
  "recordCostLoop clk [] mg = mg"
| "recordCostLoop clk (b # rest) (m, g) =
     (if \<not> enabled b then recordCostLoop clk rest (m, g)
      else case getBudgetStatus m clk (id_b b) of
        None \<Rightarrow> recordCostLoop clk rest (m, g)
      | Some st \<Rightarrow>
          (let existingAlerts = getAlerts m (id_b b);
               existingThresholds = map threshold existingAlerts
           in recordCostLoop clk rest
                (recordThresholds (current clk) b st existingThresholds (alertThresholds b) (m, g))))"

definition recordCost :: "Clock \<Rightarrow> CostRecord \<Rightarrow> BudgetManager \<times> nat \<Rightarrow> BudgetManager \<times> nat" where
  "recordCost clk r mg = recordCostLoop clk (getRelevantBudgets (fst mg) (agentId r)) mg"

text \<open>
  \<^verbatim>\<open>acknowledgeAlert\<close>: the first alert with the id, over the alert lists in the order
  of the map, is marked.
\<close>

fun acknowledgeIn :: "ident \<Rightarrow> CostAlert list \<Rightarrow> CostAlert list option" where
  "acknowledgeIn i [] = None"
| "acknowledgeIn i (a # as) =
     (if id_a a = i then Some (a\<lparr>acknowledged := True\<rparr> # as)
      else map_option ((#) a) (acknowledgeIn i as))"

fun acknowledgeLists :: "ident \<Rightarrow> (ident \<times> CostAlert list) list \<Rightarrow> (ident \<times> CostAlert list) list option" where
  "acknowledgeLists i [] = None"
| "acknowledgeLists i ((k, as) # rest) =
     (case acknowledgeIn i as of
        Some as' \<Rightarrow> Some ((k, as') # rest)
      | None \<Rightarrow> map_option ((#) (k, as)) (acknowledgeLists i rest))"

definition acknowledgeAlert :: "ident \<Rightarrow> BudgetManager \<Rightarrow> bool \<times> BudgetManager" where
  "acknowledgeAlert i m =
     (case acknowledgeLists i (alerts m) of
        None \<Rightarrow> (False, m)
      | Some al \<Rightarrow> (True, m\<lparr>alerts := al\<rparr>))"

section \<open>Predicates of the specification\<close>

text \<open>
  The budget would block the request: it is enabled, its status is defined, the projected
  spend (current spend plus the estimated cost) strictly exceeds its limit, and its
  action is \<open>Block\<close>.
\<close>

definition wouldBlock :: "Clock \<Rightarrow> BudgetManager \<Rightarrow> real \<Rightarrow> BudgetConfig \<Rightarrow> bool" where
  "wouldBlock clk m estimated b =
     (enabled b \<and>
      (case getBudgetStatus m clk (id_b b) of
         None \<Rightarrow> False
       | Some st \<Rightarrow> currentSpending st + estimated > limit b \<and> action b = Block))"

text \<open>
  The invariant of the \<^verbatim>\<open>budgets\<close> map: keys are distinct, and every budget is stored
  under its own id (\<^verbatim>\<open>createBudget\<close> and \<^verbatim>\<open>updateBudget\<close> write no other entry).
\<close>

definition keyedById :: "BudgetManager \<Rightarrow> bool" where
  "keyedById m =
     (distinct (map fst (budgets m)) \<and> list_all (\<lambda>(k, b). id_b b = k) (budgets m))"

text \<open>The restriction of a ledger to the records of one agent, in ledger order.\<close>

definition recordsOf :: "string \<Rightarrow> CostStorage \<Rightarrow> CostRecord list" where
  "recordsOf agent s = filter (\<lambda>r. agentId r = agent) (records s)"

text \<open>The time stamp of the record lies in the closed interval from \<open>from\<close> to \<open>to\<close>.\<close>

definition inRange :: "instant \<Rightarrow> instant \<Rightarrow> CostRecord \<Rightarrow> bool" where
  "inRange from to r = (from \<le> timestamp_r r \<and> timestamp_r r \<le> to)"

section \<open>Example values\<close>

text \<open>Concrete inputs, taken from the test suites where they have one, for the theorems below.\<close>

definition sampleUsage :: TokenUsage where
  "sampleUsage = \<lparr>inputTokens = 1000, outputTokens = 500, totalTokens = 1500,
                   images = None, audioDuration = None\<rparr>"


definition defaultTracker :: CostTracker where
  "defaultTracker = newCostTracker DEFAULT_CONFIG"




definition twoCalls :: "FinalizeCall list" where
  "twoCalls =
     [\<lparr>call_now = 0, call_requestId = ''req-1'', call_agentId = ''agent-1'',
       call_model = ''gpt-4'', call_tokens = sampleUsage, call_provider = None,
       call_metadata = None\<rparr>,
      \<lparr>call_now = 0, call_requestId = ''req-1'', call_agentId = ''agent-1'',
       call_model = ''gpt-4'', call_tokens = sampleUsage, call_provider = None,
       call_metadata = None\<rparr>]"

definition exampleClock :: Clock where
  "exampleClock = \<lparr>current = 1769862600000, startOfHour = 1769860800000,
                    startOfDay = 1769817600000, startOfWeek = 1769299200000,
                    startOfMonth = 1767225600000\<rparr>"

text \<open>\<^verbatim>\<open>createMockRecord\<close> of the budget manager's tests, with a time stamp of the example day.\<close>

definition mockRecord :: "ident \<Rightarrow> string \<Rightarrow> real \<Rightarrow> instant \<Rightarrow> CostRecord" where
  "mockRecord i agent cost t =
     \<lparr>id_r = i, requestId = ''req-123'', agentId = agent, model_r = ''gpt-4'',
      provider_r = OpenAI, actualTokens = sampleUsage, actualCost = cost,
      breakdown_r = \<lparr>inputCost = 0.03, outputCost = 0.03, imageCost_b = None, audioCost = None\<rparr>,
      timestamp_r = t, metadata = None\<rparr>"

definition budgetInput :: "real \<Rightarrow> real list \<Rightarrow> BudgetAction \<Rightarrow> BudgetScope option \<Rightarrow> BudgetInput" where
  "budgetInput l thrs act sc =
     \<lparr>name = ''Test Budget'', limit = l, period = Daily, alertThresholds = thrs,
      action = act, scope = sc, enabled = True\<rparr>"

text \<open>The budget that \<^verbatim>\<open>createBudget\<close> makes of \<open>budgetInput\<close> at 12:20 of the example day.\<close>

definition testBudget :: "ident \<Rightarrow> real \<Rightarrow> real list \<Rightarrow> BudgetAction \<Rightarrow> BudgetScope option \<Rightarrow> BudgetConfig" where
  "testBudget i l thrs act sc =
     \<lparr>name = ''Test Budget'', limit = l, period = Daily, alertThresholds = thrs,
      action = act, scope = sc, enabled = True,
      id_b = i, createdAt = 1769862000000, updatedAt = 1769862000000\<rparr>"

text \<open>
  One alert-only budget of limit 1 with the threshold 50, and 0.45 already spent
  (the set-up of the tests that trigger an alert).
\<close>

definition halfAlertManager :: "BudgetManager \<times> nat" where
  "halfAlertManager =
     snd (createBudget 1769862000000 0 (budgetInput 1 [50] Alert None)
            (newBudgetManager
               (store newStorage (mockRecord 1000 ''agent-123'' 0.45 1769862000000))))"

text \<open>
  Three budgets of limit 1, 1 and 0.5 with actions alert, block and block, created in
  this order, and 0.95 already spent.
\<close>

definition threeBudgetsManager :: "BudgetManager \<times> nat" where
  "threeBudgetsManager =
     (let m0 = newBudgetManager
                 (store newStorage (mockRecord 1000 ''agent-123'' 0.95 1769862000000));
          (b0, m1, g1) = createBudget 1769862000000 0 (budgetInput 1 [100] Alert None) m0;
          (b1, m2, g2) = createBudget 1769862000000 g1 (budgetInput 1 [100] Block None) m1;
          (b2, m3, g3) = createBudget 1769862000000 g2 (budgetInput 0.5 [100] Block None) m2
      in (m3, g3))"

text \<open>One alert-only budget of limit 1, and 0.95 already spent (test "should not block when action is alert").\<close>

definition alertOnlyManager :: "BudgetManager \<times> nat" where
  "alertOnlyManager =
     snd (createBudget 1769862000000 0 (budgetInput 1 [100] Alert None)
            (newBudgetManager
               (store newStorage (mockRecord 1000 ''agent-123'' 0.95 1769862000000))))"

text \<open>One blocking budget of limit 0.01 scoped to a project, and 0.95 already spent.\<close>

definition projectScope :: BudgetScope where
  "projectScope = \<lparr>type_s = Project, id_s = ''project-1''\<rparr>"

definition projectManager :: "BudgetManager \<times> nat" where
  "projectManager =
     snd (createBudget 1769862000000 0 (budgetInput 0.01 [100] Block (Some projectScope))
            (newBudgetManager
               (store newStorage (mockRecord 1000 ''agent-123'' 0.95 1769862000000))))"

text \<open>
  A budget scoped to agent-1 over a ledger with one record of agent-1, and the same
  manager after a record of agent-2 is stored (test "should filter by agent scope").
\<close>

definition agentScope :: BudgetScope where
  "agentScope = \<lparr>type_s = Agent, id_s = ''agent-1''\<rparr>"

definition agentManager :: BudgetManager where
  "agentManager =
     fst (snd (createBudget 1769862000000 0 (budgetInput 10 [100] Alert (Some agentScope))
            (newBudgetManager
               (store newStorage (mockRecord 1000 ''agent-1'' 3 1769862000000)))))"

definition agentManager' :: BudgetManager where
  "agentManager' =
     agentManager\<lparr>storage := store (storage agentManager)
                                  (mockRecord 1001 ''agent-2'' 5 1769862000000)\<rparr>"

text \<open>A ledger with records one instant before, at, and one instant after the bounds 100 and 200.\<close>

definition rangeStorage :: CostStorage where
  "rangeStorage =
     store (store (store (store newStorage
       (mockRecord 1 ''agent-1'' 1 99)) (mockRecord 2 ''agent-1'' 2 100))
       (mockRecord 3 ''agent-2'' 4 200)) (mockRecord 4 ''agent-2'' 8 201)"

text \<open>A configuration with a negative limit and no alert threshold.\<close>

definition badInput :: BudgetInput where
  "badInput = \<lparr>name = ''Bad Budget'', limit = - 5, period = Daily, alertThresholds = [],
               action = Block, scope = None, enabled = True\<rparr>"

text \<open>The budget of \<open>halfAlertManager\<close> with 0.55 already spent.\<close>

definition overHalfManager :: "BudgetManager \<times> nat" where
  "overHalfManager =
     snd (createBudget 1769862000000 0 (budgetInput 1 [50] Alert None)
            (newBudgetManager
               (store newStorage (mockRecord 1000 ''agent-123'' 0.55 1769862000000))))"

section \<open>Properties of the cost calculator\<close>

lemma calculateActualCost_id:
  "id_r (fst (calculateActualCost t now g req agent m tokens prov meta)) = g"
  by (simp add: calculateActualCost_def createZeroCostRecord_def generateId_def Let_def
      split: option.split)

lemma calculateActualCost_next:
  "snd (calculateActualCost t now g req agent m tokens prov meta) = Suc g"
  by (simp add: calculateActualCost_def createZeroCostRecord_def generateId_def Let_def
      split: option.split)

lemma calculateActualCosts_ids:
  "map id_r (fst (calculateActualCosts t g cs)) = [g ..< g + length cs]"
proof (induction cs arbitrary: g)
  case Nil
  show ?case by simp
next
  case (Cons c cs)
  show ?case
    by (simp add: split_beta calculateActualCost_id calculateActualCost_next Cons.IH
        upt_conv_Cons del: upt_Suc)
qed



lemma getModelPricing_gpt4:
  "getModelPricing ''gpt-4'' None = Some (snd (entry ''gpt-4'' OpenAI 0.03 0.06 None))"
  by (simp add: getModelPricing_def MODEL_PRICING_def entry_def)


lemma defaultTracker_simps:
  "enabled_c (config defaultTracker)" "customPricing defaultTracker = Map.empty"
  by (simp_all add: defaultTracker_def newCostTracker_def DEFAULT_CONFIG_def)








text \<open>
  C7. For the same model, usage and provider, \<^verbatim>\<open>estimateCost\<close> and
  \<^verbatim>\<open>calculateActualCost\<close> compute the same total and the same breakdown, whatever the
  other arguments are; and the records of any sequence of \<^verbatim>\<open>calculateActualCost\<close>
  calls carry pairwise different ids (with \<open>generateId\<close> as modelled from the spec).
\<close>

theorem estimate_equals_actual_and_ids_fresh:
  "estimatedCost (estimateCost t now m tokens prov)
     = actualCost (fst (calculateActualCost t now' g req agent m tokens prov meta))
   \<and> breakdown_e (estimateCost t now m tokens prov)
     = breakdown_r (fst (calculateActualCost t now' g req agent m tokens prov meta))
   \<and> distinct (map id_r (fst (calculateActualCosts t g calls)))"
  by (simp add: calculateActualCosts_ids estimateCost_def calculateActualCost_def
      createZeroCostEstimate_def createZeroCostRecord_def generateId_def Let_def
      split: option.split)

theorem estimate_equals_actual_and_ids_fresh_witness:
  "estimatedCost (estimateCost defaultTracker 0 ''gpt-4'' sampleUsage None) = 0.06
   \<and> estimatedCost (estimateCost defaultTracker 0 ''gpt-4'' sampleUsage None)
     = actualCost (fst (calculateActualCost defaultTracker 5 0 ''req-1'' ''agent-1''
                          ''gpt-4'' sampleUsage None None))
   \<and> distinct (map id_r (fst (calculateActualCosts defaultTracker 0 twoCalls)))
   \<and> map id_r (fst (calculateActualCosts defaultTracker 0 twoCalls)) = [0, 1]"
proof -
  have v: "estimatedCost (estimateCost defaultTracker 0 ''gpt-4'' sampleUsage None) = 0.06"
    by (simp add: estimateCost_def defaultTracker_simps resolvePricing_def getModelPricing_gpt4
        entry_def sampleUsage_def auxCost_def truthy_def Let_def)
  have i: "map id_r (fst (calculateActualCosts defaultTracker 0 twoCalls)) = [0, 1]"
    unfolding calculateActualCosts_ids by (simp add: twoCalls_def upt_conv_Cons)
  from estimate_equals_actual_and_ids_fresh
    [of defaultTracker 0 "''gpt-4''" sampleUsage None 5 0 "''req-1''" "''agent-1''" None twoCalls]
  show ?thesis using v i by blast
qed

section \<open>Properties of \<^verbatim>\<open>checkBudget\<close>\<close>

lemma addAlert_frame [simp]:
  "budgets (addAlert i a m) = budgets m" "storage (addAlert i a m) = storage m"
  by (simp_all add: addAlert_def)

lemma getBudgetStatus_cong:
  "budgets m' = budgets m \<Longrightarrow> storage m' = storage m \<Longrightarrow>
   getBudgetStatus m' clk i = getBudgetStatus m clk i"
  by (simp add: getBudgetStatus_def split: option.split)

lemma checkThresholds_frame:
  "checkThresholds t b ps pp used thrs (m, g, out) = (m', g', out') \<Longrightarrow>
   budgets m' = budgets m \<and> storage m' = storage m"
  by (induction thrs arbitrary: m g out) (auto simp: split_beta Let_def split: if_splits)

lemma wouldBlock_cong:
  "budgets m' = budgets m \<Longrightarrow> storage m' = storage m \<Longrightarrow>
   wouldBlock clk m' e b = wouldBlock clk m e b"
  by (simp add: wouldBlock_def getBudgetStatus_cong [of m' m])

lemma checkBudgetLoop_step:
  "checkBudgetLoop clk e (b # rest) (m, g, out) =
     (if wouldBlock clk m e b
      then (Some b, checkThresholds (current clk) b
                      (currentSpending (the (getBudgetStatus m clk (id_b b))) + e)
                      (percentOf (currentSpending (the (getBudgetStatus m clk (id_b b))) + e) (limit b))
                      (percentageUsed (the (getBudgetStatus m clk (id_b b))))
                      (alertThresholds b) (m, g, out))
      else if enabled b \<and> getBudgetStatus m clk (id_b b) \<noteq> None
      then checkBudgetLoop clk e rest
             (checkThresholds (current clk) b
                      (currentSpending (the (getBudgetStatus m clk (id_b b))) + e)
                      (percentOf (currentSpending (the (getBudgetStatus m clk (id_b b))) + e) (limit b))
                      (percentageUsed (the (getBudgetStatus m clk (id_b b))))
                      (alertThresholds b) (m, g, out))
      else checkBudgetLoop clk e rest (m, g, out))"
  by (auto simp: wouldBlock_def Let_def split: option.splits)

lemma checkBudgetLoop_find:
  "budgets m = budgets m0 \<Longrightarrow> storage m = storage m0 \<Longrightarrow>
   fst (checkBudgetLoop clk e bs (m, g, out)) = find (wouldBlock clk m0 e) bs"
proof (induction bs arbitrary: m g out)
  case Nil
  show ?case by simp
next
  case (Cons b bs)
  let ?st = "checkThresholds (current clk) b
                      (currentSpending (the (getBudgetStatus m clk (id_b b))) + e)
                      (percentOf (currentSpending (the (getBudgetStatus m clk (id_b b))) + e) (limit b))
                      (percentageUsed (the (getBudgetStatus m clk (id_b b))))
                      (alertThresholds b) (m, g, out)"
  obtain m' g' out' where st: "?st = (m', g', out')"
    by (cases ?st) auto
  from checkThresholds_frame [OF st] Cons.prems
  have fr: "budgets m' = budgets m0" "storage m' = storage m0" by auto
  have wb: "wouldBlock clk m e b = wouldBlock clk m0 e b"
    using Cons.prems by (rule wouldBlock_cong)
  show ?case
    unfolding checkBudgetLoop_step st
    using Cons.IH [OF fr] Cons.IH [OF Cons.prems] wb by auto
qed

lemma checkBudgetLoop_cut:
  "wouldBlock clk m0 e b \<Longrightarrow> budgets m = budgets m0 \<Longrightarrow> storage m = storage m0 \<Longrightarrow>
   checkBudgetLoop clk e (pre @ b # post) (m, g, out) = checkBudgetLoop clk e (pre @ [b]) (m, g, out)"
proof (induction pre arbitrary: m g out)
  case Nil
  have "wouldBlock clk m e b"
    using Nil by (simp add: wouldBlock_cong [of m m0])
  then show ?case
    unfolding append_Nil checkBudgetLoop_step by simp
next
  case (Cons x pre)
  let ?st = "checkThresholds (current clk) x
                      (currentSpending (the (getBudgetStatus m clk (id_b x))) + e)
                      (percentOf (currentSpending (the (getBudgetStatus m clk (id_b x))) + e) (limit x))
                      (percentageUsed (the (getBudgetStatus m clk (id_b x))))
                      (alertThresholds x) (m, g, out)"
  obtain m' g' out' where st: "?st = (m', g', out')"
    by (cases ?st) auto
  from checkThresholds_frame [OF st] Cons.prems
  have fr: "budgets m' = budgets m0" "storage m' = storage m0" by auto
  show ?case
    unfolding append_Cons checkBudgetLoop_step st
    using Cons.IH [OF Cons.prems(1) fr] Cons.IH [OF Cons.prems] by auto
qed


lemma find_SomeD: "find P xs = Some x \<Longrightarrow> P x \<and> x \<in> set xs"
  by (induction xs) (auto split: if_splits)

lemma find_first:
  "\<forall>x\<in>set pre. \<not> P x \<Longrightarrow> P b \<Longrightarrow> find P (pre @ b # post) = Some b"
  by (induction pre) auto

lemmas status_eval = getBudgetStatus_def getPeriodDates_def getByDateRange_def records_def
  percentOf_def exampleClock_def mockRecord_def testBudget_def Let_def

lemmas check_eval = checkBudget_def checkBudgetOn_def getRelevantBudgets_def status_eval
  createAlert_def generateId_def addAlert_def getAlerts_def

lemmas create_eval = createBudget_def generateId_def budgetInput_def testBudget_def
  newBudgetManager_def store_def newStorage_def mockRecord_def Let_def

lemma halfAlertManager_eq:
  "halfAlertManager =
    (\<lparr>budgets = [(0, testBudget 0 1 [50] Alert None)], alerts = [(0, [])],
      storage = [(1000, mockRecord 1000 ''agent-123'' 0.45 1769862000000)]\<rparr>, 1)"
  by (simp add: halfAlertManager_def create_eval)

lemma threeBudgetsManager_eq:
  "threeBudgetsManager =
    (\<lparr>budgets = [(0, testBudget 0 1 [100] Alert None), (1, testBudget 1 1 [100] Block None),
                 (2, testBudget 2 0.5 [100] Block None)],
      alerts = [(0, []), (1, []), (2, [])],
      storage = [(1000, mockRecord 1000 ''agent-123'' 0.95 1769862000000)]\<rparr>, 3)"
  by (simp add: threeBudgetsManager_def create_eval)

lemma alertOnlyManager_eq:
  "alertOnlyManager =
    (\<lparr>budgets = [(0, testBudget 0 1 [100] Alert None)], alerts = [(0, [])],
      storage = [(1000, mockRecord 1000 ''agent-123'' 0.95 1769862000000)]\<rparr>, 1)"
  by (simp add: alertOnlyManager_def create_eval)

text \<open>
  C1 fails on the code. The budget of \<open>halfAlertManager\<close> has the single threshold 50 and
  45% of its limit are spent. Two calls \<^verbatim>\<open>checkBudget('agent-123', 0.10)\<close> at the same
  instant, with nothing recorded in between, leave two alerts for the threshold 50 in
  the budget's alert list: \<^verbatim>\<open>checkBudget\<close> adds an alert on every call that projects a
  crossing, and does not look at the alerts the budget already has, which
  \<^verbatim>\<open>recordCost\<close> does.
\<close>

theorem checkBudget_twice_duplicates_alert:
  "alertThresholds (testBudget 0 1 [50] Alert None) = [50]
   \<and> getBudget (fst halfAlertManager) 0 = Some (testBudget 0 1 [50] Alert None)
   \<and> getAlerts (fst halfAlertManager) 0 = []
   \<and> map threshold (getAlerts (fst (snd (checkBudget exampleClock ''agent-123'' 0.10
          halfAlertManager))) 0) = [50]
   \<and> map threshold (getAlerts (fst (snd (checkBudget exampleClock ''agent-123'' 0.10
          (snd (checkBudget exampleClock ''agent-123'' 0.10 halfAlertManager))))) 0) = [50, 50]"
  unfolding halfAlertManager_eq
  by (simp add: check_eval getBudget_def)

text \<open>
  The sibling path: with 55% spent, two calls of \<^verbatim>\<open>recordCost\<close> leave one alert for
  the threshold 50, since the second call finds the threshold among the existing alerts.
\<close>

lemma overHalfManager_eq:
  "overHalfManager =
    (\<lparr>budgets = [(0, testBudget 0 1 [50] Alert None)], alerts = [(0, [])],
      storage = [(1000, mockRecord 1000 ''agent-123'' 0.55 1769862000000)]\<rparr>, 1)"
  by (simp add: overHalfManager_def create_eval)

lemma recordCost_twice_single_alert:
  "map threshold (getAlerts (fst (recordCost exampleClock
       (mockRecord 1000 ''agent-123'' 0.55 1769862000000)
       (recordCost exampleClock (mockRecord 1000 ''agent-123'' 0.55 1769862000000)
          overHalfManager))) 0) = [50]"
  unfolding overHalfManager_eq
  by (simp add: recordCost_def getRelevantBudgets_def status_eval createAlert_def generateId_def
      addAlert_def getAlerts_def)

text \<open>
  C2. When the relevant budgets of the agent, in insertion order, are \<open>pre @ b # post\<close>,
  no budget of \<open>pre\<close> would block and \<open>b\<close> would (it is enabled, the projected spend
  strictly exceeds its limit and its action is block), then \<^verbatim>\<open>checkBudget\<close> returns
  \<open>allowed = False\<close> and \<open>blockedBy = b\<close>, and the whole outcome (result, alert lists,
  ids consumed) is that of the loop run on \<open>pre @ [b]\<close> alone: no budget of \<open>post\<close> is
  evaluated.
\<close>

theorem checkBudget_first_blocker:
  assumes rel: "getRelevantBudgets m agent = pre @ b # post"
    and pre: "\<forall>x\<in>set pre. \<not> wouldBlock clk m estimated x"
    and blk: "wouldBlock clk m estimated b"
  shows "allowed (fst (checkBudget clk agent estimated (m, g))) = False
       \<and> blockedBy (fst (checkBudget clk agent estimated (m, g))) = Some b
       \<and> checkBudget clk agent estimated (m, g) = checkBudgetOn clk estimated (pre @ [b]) (m, g)"
proof -
  have cut: "checkBudgetLoop clk estimated (pre @ b # post) (m, g, [])
               = checkBudgetLoop clk estimated (pre @ [b]) (m, g, [])"
    using blk by (rule checkBudgetLoop_cut) simp_all
  have "fst (checkBudgetLoop clk estimated (pre @ b # post) (m, g, []))
          = find (wouldBlock clk m estimated) (pre @ b # post)"
    by (rule checkBudgetLoop_find) simp_all
  then have fst: "fst (checkBudgetLoop clk estimated (pre @ b # post) (m, g, [])) = Some b"
    using find_first [OF pre blk] by simp
  have same: "checkBudget clk agent estimated (m, g) = checkBudgetOn clk estimated (pre @ [b]) (m, g)"
    unfolding checkBudget_def checkBudgetOn_def fst_conv snd_conv rel
    by (subst cut) (rule refl)
  have "blockedBy (fst (checkBudget clk agent estimated (m, g))) = Some b"
    using fst by (simp add: checkBudget_def checkBudgetOn_def rel split_beta)
  moreover have "allowed (fst (checkBudget clk agent estimated (m, g))) = False"
    using fst by (simp add: checkBudget_def checkBudgetOn_def rel split_beta)
  ultimately show ?thesis using same by blast
qed

theorem checkBudget_first_blocker_witness:
  "getRelevantBudgets (fst threeBudgetsManager) ''agent-123''
     = [testBudget 0 1 [100] Alert None] @ testBudget 1 1 [100] Block None
         # [testBudget 2 0.5 [100] Block None]
   \<and> \<not> wouldBlock exampleClock (fst threeBudgetsManager) 0.10 (testBudget 0 1 [100] Alert None)
   \<and> wouldBlock exampleClock (fst threeBudgetsManager) 0.10 (testBudget 1 1 [100] Block None)
   \<and> wouldBlock exampleClock (fst threeBudgetsManager) 0.10 (testBudget 2 0.5 [100] Block None)
   \<and> allowed (fst (checkBudget exampleClock ''agent-123'' 0.10 threeBudgetsManager)) = False
   \<and> blockedBy (fst (checkBudget exampleClock ''agent-123'' 0.10 threeBudgetsManager))
       = Some (testBudget 1 1 [100] Block None)
   \<and> map budgetId (alerts_res (fst (checkBudget exampleClock ''agent-123'' 0.10 threeBudgetsManager)))
       = [0, 1]"
proof -
  let ?m = "fst threeBudgetsManager"
  have rel: "getRelevantBudgets ?m ''agent-123''
     = [testBudget 0 1 [100] Alert None] @ testBudget 1 1 [100] Block None
         # [testBudget 2 0.5 [100] Block None]"
    by (simp add: threeBudgetsManager_eq getRelevantBudgets_def testBudget_def)
  have n0: "\<not> wouldBlock exampleClock ?m 0.10 (testBudget 0 1 [100] Alert None)"
    by (simp add: threeBudgetsManager_eq wouldBlock_def status_eval)
  have pre: "\<forall>x\<in>set [testBudget 0 1 [100] Alert None]. \<not> wouldBlock exampleClock ?m 0.10 x"
    using n0 by simp
  have b1: "wouldBlock exampleClock ?m 0.10 (testBudget 1 1 [100] Block None)"
    by (simp add: threeBudgetsManager_eq wouldBlock_def status_eval)
  have b2: "wouldBlock exampleClock ?m 0.10 (testBudget 2 0.5 [100] Block None)"
    by (simp add: threeBudgetsManager_eq wouldBlock_def status_eval)
  have al: "map budgetId (alerts_res (fst (checkBudget exampleClock ''agent-123'' 0.10 threeBudgetsManager)))
       = [0, 1]"
    unfolding threeBudgetsManager_eq by (simp add: check_eval)
  have pair: "threeBudgetsManager = (?m, snd threeBudgetsManager)" by simp
  from checkBudget_first_blocker [OF rel pre b1, of "snd threeBudgetsManager"]
  have "allowed (fst (checkBudget exampleClock ''agent-123'' 0.10 threeBudgetsManager)) = False
       \<and> blockedBy (fst (checkBudget exampleClock ''agent-123'' 0.10 threeBudgetsManager))
           = Some (testBudget 1 1 [100] Block None)"
    unfolding pair [symmetric] by blast
  then show ?thesis using rel n0 b1 b2 al by blast
qed


text \<open>
  C3. \<^verbatim>\<open>checkBudget\<close> returns \<open>allowed = False\<close> exactly when it names a blocking
  budget; a budget it names has the action block (and is a relevant budget whose projected
  spend exceeds its limit), so never the action alert or throttle; and when every relevant
  budget has the action alert or throttle the request is allowed, whatever the agent, the
  estimated cost and the spend are.
\<close>

theorem checkBudget_blocks_only_on_block_action:
  "(allowed (fst (checkBudget clk agent estimated (m, g)))
      = (blockedBy (fst (checkBudget clk agent estimated (m, g))) = None))
   \<and> (\<forall>b. blockedBy (fst (checkBudget clk agent estimated (m, g))) = Some b \<longrightarrow>
          action b = Block \<and> b \<in> set (getRelevantBudgets m agent)
          \<and> wouldBlock clk m estimated b)
   \<and> ((\<forall>b\<in>set (getRelevantBudgets m agent). action b = Alert \<or> action b = Throttle) \<longrightarrow>
          allowed (fst (checkBudget clk agent estimated (m, g))))"
proof -
  let ?rel = "getRelevantBudgets m agent"
  have f: "fst (checkBudgetLoop clk estimated ?rel (m, g, [])) = find (wouldBlock clk m estimated) ?rel"
    by (rule checkBudgetLoop_find) simp_all
  have bl: "blockedBy (fst (checkBudget clk agent estimated (m, g))) = find (wouldBlock clk m estimated) ?rel"
    using f by (simp add: checkBudget_def checkBudgetOn_def split_beta)
  have al: "allowed (fst (checkBudget clk agent estimated (m, g)))
      = (blockedBy (fst (checkBudget clk agent estimated (m, g))) = None)"
    by (simp add: checkBudget_def checkBudgetOn_def split_beta)
  have some: "action b = Block \<and> b \<in> set ?rel \<and> wouldBlock clk m estimated b"
    if "find (wouldBlock clk m estimated) ?rel = Some b" for b
  proof -
    from find_SomeD [OF that] have w: "wouldBlock clk m estimated b" and i: "b \<in> set ?rel"
      by simp_all
    from w have "action b = Block"
      by (simp add: wouldBlock_def split: option.splits)
    with w i show ?thesis by simp
  qed
  have none: "find (wouldBlock clk m estimated) ?rel = None"
    if a: "\<forall>b\<in>set ?rel. action b = Alert \<or> action b = Throttle"
  proof (cases "find (wouldBlock clk m estimated) ?rel")
    case None
    then show ?thesis .
  next
    case (Some b)
    from some [OF Some] a have False by auto
    then show ?thesis ..
  qed
  have c1: "allowed (fst (checkBudget clk agent estimated (m, g)))
      = (blockedBy (fst (checkBudget clk agent estimated (m, g))) = None)"
    by (rule al)
  have c2: "\<forall>b. blockedBy (fst (checkBudget clk agent estimated (m, g))) = Some b \<longrightarrow>
          action b = Block \<and> b \<in> set (getRelevantBudgets m agent)
          \<and> wouldBlock clk m estimated b"
    unfolding bl using some by blast
  have c3: "(\<forall>b\<in>set (getRelevantBudgets m agent). action b = Alert \<or> action b = Throttle) \<longrightarrow>
          allowed (fst (checkBudget clk agent estimated (m, g)))"
    unfolding al bl using none by blast
  from c1 c2 c3 show ?thesis by blast
qed

theorem checkBudget_blocks_only_on_block_action_witness:
  "getRelevantBudgets (fst alertOnlyManager) ''agent-123'' = [testBudget 0 1 [100] Alert None]
   \<and> action (testBudget 0 1 [100] Alert None) = Alert
   \<and> map_option isExceeded (getBudgetStatus (fst alertOnlyManager) exampleClock 0) = Some False
   \<and> map_option (\<lambda>st. currentSpending st + 0.10 > 1)
         (getBudgetStatus (fst alertOnlyManager) exampleClock 0) = Some True
   \<and> allowed (fst (checkBudget exampleClock ''agent-123'' 0.10 alertOnlyManager))
   \<and> blockedBy (fst (checkBudget exampleClock ''agent-123'' 0.10 alertOnlyManager)) = None"
proof -
  let ?m = "fst alertOnlyManager"
  have rel: "getRelevantBudgets ?m ''agent-123'' = [testBudget 0 1 [100] Alert None]"
    by (simp add: alertOnlyManager_eq getRelevantBudgets_def testBudget_def)
  have act: "action (testBudget 0 1 [100] Alert None) = Alert"
    by (simp add: testBudget_def)
  have all: "\<forall>b\<in>set (getRelevantBudgets ?m ''agent-123''). action b = Alert \<or> action b = Throttle"
    unfolding rel using act by simp
  have st: "map_option isExceeded (getBudgetStatus ?m exampleClock 0) = Some False"
    "map_option (\<lambda>st. currentSpending st + 0.10 > 1) (getBudgetStatus ?m exampleClock 0) = Some True"
    by (simp_all add: alertOnlyManager_eq status_eval)
  have pair: "alertOnlyManager = (?m, snd alertOnlyManager)" by simp
  from checkBudget_blocks_only_on_block_action
    [of exampleClock "''agent-123''" "0.10" ?m "snd alertOnlyManager"] all
  have "allowed (fst (checkBudget exampleClock ''agent-123'' 0.10 alertOnlyManager))
      \<and> blockedBy (fst (checkBudget exampleClock ''agent-123'' 0.10 alertOnlyManager)) = None"
    unfolding pair [symmetric] by blast
  then show ?thesis using rel act st by blast
qed

section \<open>Budgets that are never relevant\<close>

lemma getAlerts_addAlert_other: "i \<noteq> j \<Longrightarrow> getAlerts (addAlert j a m) i = getAlerts m i"
  by (simp add: getAlerts_def addAlert_def update_conv')

lemma createAlert_budgetId: "budgetId (fst (createAlert t g b thr sp)) = id_b b"
  by (simp add: createAlert_def generateId_def Let_def)

lemma checkThresholds_alerts:
  "checkThresholds t b ps pp used thrs (m, g, out) = (m', g', out') \<Longrightarrow> i \<noteq> id_b b \<Longrightarrow>
   list_all (\<lambda>a. budgetId a \<noteq> i) out \<Longrightarrow>
   getAlerts m' i = getAlerts m i \<and> list_all (\<lambda>a. budgetId a \<noteq> i) out'"
proof (induction thrs arbitrary: m g out)
  case Nil
  then show ?case by simp
next
  case (Cons thr thrs)
  show ?case
  proof (cases "geq pp thr \<and> less used thr")
    case True
    obtain a g1 where ca: "createAlert t g b thr ps = (a, g1)"
      by (cases "createAlert t g b thr ps") auto
    have ba: "budgetId a = id_b b"
      using createAlert_budgetId [of t g b thr ps] ca by simp
    from Cons.prems(1) True ca
    have run: "checkThresholds t b ps pp used thrs (addAlert (id_b b) a m, g1, out @ [a]) = (m', g', out')"
      by simp
    have "list_all (\<lambda>a. budgetId a \<noteq> i) (out @ [a])"
      using Cons.prems(2,3) ba by simp
    from Cons.IH [OF run Cons.prems(2) this] Cons.prems(2)
    show ?thesis by (simp add: getAlerts_addAlert_other)
  next
    case False
    with Cons.prems(1)
    have run: "checkThresholds t b ps pp used thrs (m, g, out) = (m', g', out')"
      by auto
    from Cons.IH [OF run Cons.prems(2,3)] show ?thesis .
  qed
qed

lemma checkBudgetLoop_alerts:
  "checkBudgetLoop clk e bs (m, g, out) = (r, m', g', out') \<Longrightarrow> i \<notin> id_b ` set bs \<Longrightarrow>
   list_all (\<lambda>a. budgetId a \<noteq> i) out \<Longrightarrow>
   getAlerts m' i = getAlerts m i \<and> list_all (\<lambda>a. budgetId a \<noteq> i) out'"
proof (induction bs arbitrary: m g out)
  case Nil
  then show ?case by simp
next
  case (Cons b bs)
  let ?st = "checkThresholds (current clk) b
                      (currentSpending (the (getBudgetStatus m clk (id_b b))) + e)
                      (percentOf (currentSpending (the (getBudgetStatus m clk (id_b b))) + e) (limit b))
                      (percentageUsed (the (getBudgetStatus m clk (id_b b))))
                      (alertThresholds b) (m, g, out)"
  obtain m1 g1 out1 where st: "?st = (m1, g1, out1)"
    by (cases ?st) auto
  from Cons.prems(2) have ni: "i \<noteq> id_b b" and nis: "i \<notin> id_b ` set bs" by auto
  from checkThresholds_alerts [OF st ni Cons.prems(3)]
  have fr: "getAlerts m1 i = getAlerts m i" "list_all (\<lambda>a. budgetId a \<noteq> i) out1" by simp_all
  from Cons.prems(1) have
    "(wouldBlock clk m e b \<and> (r, m', g', out') = (Some b, m1, g1, out1))
     \<or> checkBudgetLoop clk e bs (m1, g1, out1) = (r, m', g', out')
     \<or> checkBudgetLoop clk e bs (m, g, out) = (r, m', g', out')"
    unfolding checkBudgetLoop_step st by (auto split: if_splits)
  then show ?case
    using fr Cons.IH [OF _ nis fr(2)] Cons.IH [OF _ nis Cons.prems(3)] by auto
qed

lemma recordThresholds_alerts:
  "i \<noteq> id_b b \<Longrightarrow>
   getAlerts (fst (recordThresholds t b st ex thrs (m, g))) i = getAlerts m i"
  by (induction thrs arbitrary: m g) (auto simp: split_beta Let_def getAlerts_addAlert_other)

lemma recordThresholds_frame:
  "budgets (fst (recordThresholds t b st ex thrs (m, g))) = budgets m
   \<and> storage (fst (recordThresholds t b st ex thrs (m, g))) = storage m"
  by (induction thrs arbitrary: m g) (auto simp: split_beta Let_def)

lemma recordCostLoop_alerts:
  "i \<notin> id_b ` set bs \<Longrightarrow> getAlerts (fst (recordCostLoop clk bs (m, g))) i = getAlerts m i"
proof (induction bs arbitrary: m g)
  case Nil
  show ?case by simp
next
  case (Cons b bs)
  from Cons.prems have ni: "i \<noteq> id_b b" and nis: "i \<notin> id_b ` set bs" by auto
  show ?case
  proof (cases "enabled b \<and> getBudgetStatus m clk (id_b b) \<noteq> None")
    case False
    then show ?thesis using Cons.IH [OF nis, of m g] by auto
  next
    case True
    then obtain st where st: "getBudgetStatus m clk (id_b b) = Some st" by auto
    let ?mg = "recordThresholds (current clk) b st (map threshold (getAlerts m (id_b b)))
                 (alertThresholds b) (m, g)"
    have "getAlerts (fst (recordCostLoop clk bs ?mg)) i = getAlerts (fst ?mg) i"
      using Cons.IH [OF nis, of "fst ?mg" "snd ?mg"] by simp
    also have "\<dots> = getAlerts m i"
      using ni by (rule recordThresholds_alerts)
    finally show ?thesis using True st by (simp add: Let_def)
  qed
qed

lemma getRelevantBudgets_stored: "set (getRelevantBudgets m agent) \<subseteq> snd ` set (budgets m)"
  by (auto simp: getRelevantBudgets_def)

lemma getRelevantBudgets_scope:
  "b \<in> set (getRelevantBudgets m agent) \<Longrightarrow>
   enabled b \<and> (scope b = None \<or> scope b = Some \<lparr>type_s = Agent, id_s = agent\<rparr>)"
  by (auto simp: getRelevantBudgets_def split: option.splits if_splits)

lemma keyedById_unique:
  assumes "keyedById m" "b \<in> snd ` set (budgets m)" "b' \<in> snd ` set (budgets m)"
    "id_b b = id_b b'"
  shows "b = b'"
proof -
  from assms(2,3) obtain k k' where kb: "(k, b) \<in> set (budgets m)" "(k', b') \<in> set (budgets m)"
    by auto
  from assms(1) kb have "id_b b = k" "id_b b' = k'"
    by (auto simp: keyedById_def list_all_iff)
  with assms(4) kb have "(k, b) \<in> set (budgets m)" "(k, b') \<in> set (budgets m)" by simp_all
  moreover from assms(1) have "distinct (map fst (budgets m))" by (simp add: keyedById_def)
  ultimately show ?thesis by (rule eq_key_imp_eq_value [rotated])
qed

text \<open>
  C10. A stored budget whose scope type is project or organization is not among the
  relevant budgets of any agent. Hence \<^verbatim>\<open>checkBudget\<close> never names it as the blocking
  budget and returns no alert of it, and neither \<^verbatim>\<open>checkBudget\<close> nor \<^verbatim>\<open>recordCost\<close>
  changes its alert list, whatever the ledger holds. (The alert lists are keyed by budget
  id, hence the invariant \<open>keyedById\<close> of the budget map.)
\<close>

theorem project_budget_never_relevant:
  assumes wf: "keyedById m"
    and mem: "b \<in> set (getAllBudgets m)"
    and sc: "scope b = Some s"
    and ty: "type_s s = Project \<or> type_s s = Organization"
  shows "b \<notin> set (getRelevantBudgets m agent)
       \<and> blockedBy (fst (checkBudget clk agent estimated (m, g))) \<noteq> Some b
       \<and> list_all (\<lambda>a. budgetId a \<noteq> id_b b) (alerts_res (fst (checkBudget clk agent estimated (m, g))))
       \<and> getAlerts (fst (snd (checkBudget clk agent estimated (m, g)))) (id_b b) = getAlerts m (id_b b)
       \<and> getAlerts (fst (recordCost clk r (m, g))) (id_b b) = getAlerts m (id_b b)"
proof -
  let ?rel = "getRelevantBudgets m agent"
  have nrel: "b \<notin> set (getRelevantBudgets m a)" for a
    using getRelevantBudgets_scope [of b m a] sc ty by auto
  have nid: "id_b b \<notin> id_b ` set (getRelevantBudgets m a)" for a
  proof
    assume "id_b b \<in> id_b ` set (getRelevantBudgets m a)"
    then obtain b' where b': "b' \<in> set (getRelevantBudgets m a)" "id_b b = id_b b'" by auto
    with getRelevantBudgets_stored [of m a] have "b' \<in> snd ` set (budgets m)" by auto
    from keyedById_unique [OF wf _ this b'(2)] mem have "b = b'"
      by (simp add: getAllBudgets_def)
    with b'(1) nrel show False by simp
  qed
  obtain r0 m' g' out' where loop: "checkBudgetLoop clk estimated ?rel (m, g, []) = (r0, m', g', out')"
    by (cases "checkBudgetLoop clk estimated ?rel (m, g, [])") auto
  from checkBudgetLoop_alerts [OF loop nid]
  have fr: "getAlerts m' (id_b b) = getAlerts m (id_b b)" "list_all (\<lambda>a. budgetId a \<noteq> id_b b) out'"
    by simp_all
  have res: "blockedBy (fst (checkBudget clk agent estimated (m, g))) = r0"
    "alerts_res (fst (checkBudget clk agent estimated (m, g))) = out'"
    "fst (snd (checkBudget clk agent estimated (m, g))) = m'"
    by (simp_all add: checkBudget_def checkBudgetOn_def loop)
  have "r0 = find (wouldBlock clk m estimated) ?rel"
    using checkBudgetLoop_find [of m m clk estimated ?rel g "[]"] loop by simp
  then have nb: "r0 \<noteq> Some b"
    using find_SomeD [of "wouldBlock clk m estimated" ?rel b] nrel by auto
  have rc: "getAlerts (fst (recordCost clk r (m, g))) (id_b b) = getAlerts m (id_b b)"
    unfolding recordCost_def fst_conv by (rule recordCostLoop_alerts) (rule nid)
  show ?thesis using nrel nb fr rc unfolding res by simp
qed

text \<open>The invariant \<open>keyedById\<close> holds initially and is kept by every operation of the manager.\<close>

lemma checkBudgetLoop_frame:
  "checkBudgetLoop clk e bs (m, g, out) = (r, m', g', out') \<Longrightarrow>
   budgets m' = budgets m \<and> storage m' = storage m"
proof (induction bs arbitrary: m g out)
  case Nil
  then show ?case by simp
next
  case (Cons b bs)
  let ?st = "checkThresholds (current clk) b
                      (currentSpending (the (getBudgetStatus m clk (id_b b))) + e)
                      (percentOf (currentSpending (the (getBudgetStatus m clk (id_b b))) + e) (limit b))
                      (percentageUsed (the (getBudgetStatus m clk (id_b b))))
                      (alertThresholds b) (m, g, out)"
  obtain m1 g1 out1 where st: "?st = (m1, g1, out1)"
    by (cases ?st) auto
  from checkThresholds_frame [OF st]
  have fr: "budgets m1 = budgets m" "storage m1 = storage m" by simp_all
  from Cons.prems have
    "(r, m', g', out') = (Some b, m1, g1, out1)
     \<or> checkBudgetLoop clk e bs (m1, g1, out1) = (r, m', g', out')
     \<or> checkBudgetLoop clk e bs (m, g, out) = (r, m', g', out')"
    unfolding checkBudgetLoop_step st by (auto split: if_splits)
  then show ?case
    using fr Cons.IH [of m1 g1 out1] Cons.IH [of m g out] by auto
qed

lemma recordCostLoop_frame:
  "budgets (fst (recordCostLoop clk bs (m, g))) = budgets m
   \<and> storage (fst (recordCostLoop clk bs (m, g))) = storage m"
proof (induction bs arbitrary: m g)
  case Nil
  show ?case by simp
next
  case (Cons b bs)
  show ?case
  proof (cases "enabled b \<and> getBudgetStatus m clk (id_b b) \<noteq> None")
    case False
    then show ?thesis using Cons.IH [of m g] by auto
  next
    case True
    then obtain st where st: "getBudgetStatus m clk (id_b b) = Some st" by auto
    let ?mg = "recordThresholds (current clk) b st (map threshold (getAlerts m (id_b b)))
                 (alertThresholds b) (m, g)"
    from Cons.IH [of "fst ?mg" "snd ?mg"] recordThresholds_frame [of "current clk" b st _ _ m g]
    show ?thesis using True st by (simp add: Let_def)
  qed
qed

lemma keyed_update:
  "list_all (\<lambda>(k, b). id_b b = k) al \<Longrightarrow> id_b v = k \<Longrightarrow>
   list_all (\<lambda>(k, b). id_b b = k) (AList.update k v al)"
  by (induction al) auto

lemma keyed_delete:
  "list_all (\<lambda>(k, b). id_b b = k) al \<Longrightarrow> list_all (\<lambda>(k, b). id_b b = k) (AList.delete k al)"
  by (induction al) auto

lemma keyedById_new: "keyedById (newBudgetManager s)"
  by (simp add: keyedById_def newBudgetManager_def)

lemma keyedById_createBudget:
  "keyedById m \<Longrightarrow> keyedById (fst (snd (createBudget t g cfg m)))"
  by (simp add: keyedById_def createBudget_def generateId_def Let_def distinct_update keyed_update)

lemma keyedById_updateBudget:
  "keyedById m \<Longrightarrow> keyedById (snd (updateBudget t i updates m))"
proof (cases "map_of (budgets m) i")
  case None
  assume "keyedById m"
  with None show ?thesis by (simp add: updateBudget_def)
next
  case (Some b)
  assume wf: "keyedById m"
  from Some have "(i, b) \<in> set (budgets m)" by (rule map_of_SomeD)
  with wf have "id_b b = i" by (auto simp: keyedById_def list_all_iff)
  with wf Some show ?thesis
    by (simp add: keyedById_def updateBudget_def Let_def distinct_update keyed_update)
qed

lemma keyedById_deleteBudget:
  "keyedById m \<Longrightarrow> keyedById (snd (deleteBudget i m))"
  by (simp add: deleteBudget_def keyedById_def distinct_delete keyed_delete)

lemma keyedById_checkBudget:
  "keyedById m \<Longrightarrow> keyedById (fst (snd (checkBudget clk agent estimated (m, g))))"
proof -
  assume wf: "keyedById m"
  let ?rel = "getRelevantBudgets m agent"
  obtain r0 m' g' out' where loop: "checkBudgetLoop clk estimated ?rel (m, g, []) = (r0, m', g', out')"
    by (cases "checkBudgetLoop clk estimated ?rel (m, g, [])") auto
  from checkBudgetLoop_frame [OF loop] have "budgets m' = budgets m" ..
  with wf have "keyedById m'" by (simp add: keyedById_def)
  then show ?thesis by (simp add: checkBudget_def checkBudgetOn_def loop)
qed

lemma keyedById_recordCost:
  "keyedById m \<Longrightarrow> keyedById (fst (recordCost clk r (m, g)))"
proof -
  assume wf: "keyedById m"
  from recordCostLoop_frame [of clk "getRelevantBudgets m (agentId r)" m g]
  have "budgets (fst (recordCost clk r (m, g))) = budgets m"
    by (simp add: recordCost_def)
  with wf show ?thesis by (simp add: keyedById_def)
qed

lemma projectManager_eq:
  "projectManager =
    (\<lparr>budgets = [(0, testBudget 0 0.01 [100] Block (Some projectScope))], alerts = [(0, [])],
      storage = [(1000, mockRecord 1000 ''agent-123'' 0.95 1769862000000)]\<rparr>, 1)"
  by (simp add: projectManager_def create_eval)

theorem project_budget_never_relevant_witness:
  "keyedById (fst projectManager)
   \<and> getAllBudgets (fst projectManager) = [testBudget 0 0.01 [100] Block (Some projectScope)]
   \<and> scope (testBudget 0 0.01 [100] Block (Some projectScope)) = Some projectScope
   \<and> type_s projectScope = Project
   \<and> map_option isExceeded (getBudgetStatus (fst projectManager) exampleClock 0) = Some True
   \<and> getRelevantBudgets (fst projectManager) ''agent-123'' = []
   \<and> allowed (fst (checkBudget exampleClock ''agent-123'' 0.10 projectManager))
   \<and> blockedBy (fst (checkBudget exampleClock ''agent-123'' 0.10 projectManager))
        \<noteq> Some (testBudget 0 0.01 [100] Block (Some projectScope))
   \<and> getAlerts (fst (snd (checkBudget exampleClock ''agent-123'' 0.10 projectManager))) 0 = []
   \<and> getAlerts (fst (recordCost exampleClock
         (mockRecord 1000 ''agent-123'' 0.95 1769862000000) projectManager)) 0 = []"
proof -
  let ?m = "fst projectManager"
  let ?b = "testBudget 0 0.01 [100] Block (Some projectScope)"
  have wf: "keyedById ?m"
    by (simp add: projectManager_eq keyedById_def testBudget_def)
  have all: "getAllBudgets ?m = [?b]"
    by (simp add: projectManager_eq getAllBudgets_def)
  then have mem: "?b \<in> set (getAllBudgets ?m)" by simp
  have sc: "scope ?b = Some projectScope" by (simp add: testBudget_def)
  have ty: "type_s projectScope = Project" by (simp add: projectScope_def)
  have ex: "map_option isExceeded (getBudgetStatus ?m exampleClock 0) = Some True"
    by (simp add: projectManager_eq status_eval projectScope_def)
  have rel: "getRelevantBudgets ?m ''agent-123'' = []"
    by (simp add: projectManager_eq getRelevantBudgets_def testBudget_def projectScope_def)
  have al: "allowed (fst (checkBudget exampleClock ''agent-123'' 0.10 projectManager))"
    by (simp add: checkBudget_def checkBudgetOn_def rel)
  have a0: "getAlerts ?m 0 = []" "id_b ?b = 0"
    by (simp_all add: projectManager_eq getAlerts_def testBudget_def)
  have pair: "projectManager = (?m, snd projectManager)" by simp
  from project_budget_never_relevant [OF wf mem sc disjI1 [OF ty],
      of "''agent-123''" exampleClock "0.10" "snd projectManager"
         "mockRecord 1000 ''agent-123'' 0.95 1769862000000"]
  have "blockedBy (fst (checkBudget exampleClock ''agent-123'' 0.10 projectManager)) \<noteq> Some ?b
      \<and> getAlerts (fst (snd (checkBudget exampleClock ''agent-123'' 0.10 projectManager))) 0 = []
      \<and> getAlerts (fst (recordCost exampleClock
           (mockRecord 1000 ''agent-123'' 0.95 1769862000000) projectManager)) 0 = []"
    unfolding pair [symmetric] a0 by blast
  then show ?thesis using wf all sc ty ex rel al by blast
qed

section \<open>Properties of \<^verbatim>\<open>getBudgetStatus\<close>\<close>

lemma foldl_sum: "foldl (\<lambda>sum r. sum + f r) a rs = a + sum_list (map f rs)"
  for a :: real
  by (induction rs arbitrary: a) simp_all

lemma getBudgetStatus_agent:
  "map_of (budgets m) i = Some b \<Longrightarrow> scope b = Some \<lparr>type_s = Agent, id_s = A\<rparr> \<Longrightarrow>
   getBudgetStatus m clk i =
     (let (start, end') = getPeriodDates clk (period b);
          rs = filter (\<lambda>r. timestamp_r r \<ge> start \<and> timestamp_r r \<le> end') (recordsOf A (storage m));
          spent = foldl (\<lambda>sum r. sum + actualCost r) 0 rs
      in Some \<lparr>budget = b, currentSpending = spent, remaining = max 0 (limit b - spent),
               percentageUsed = percentOf spent (limit b), isExceeded = (spent > limit b),
               activeAlerts = filter (\<lambda>t. geq (percentOf spent (limit b)) t) (alertThresholds b),
               periodStart = start, periodEnd = end', lastUpdated_s = current clk\<rparr>)"
  by (simp add: getBudgetStatus_def getByDateRange_def recordsOf_def Let_def split_beta conj_commute)

text \<open>
  C8. For a budget scoped to agent \<open>A\<close>, \<^verbatim>\<open>getBudgetStatus\<close> depends on the ledger only
  through the records of \<open>A\<close>: two managers with the same budgets whose ledgers have the
  same records of \<open>A\<close> (they differ only in records of other agents, added, removed or
  modified) yield the same status, in particular the same \<open>currentSpending\<close>.
\<close>

theorem agent_budget_ignores_other_agents:
  assumes "budgets m' = budgets m"
    and "getBudget m i = Some b"
    and "scope b = Some \<lparr>type_s = Agent, id_s = A\<rparr>"
    and "recordsOf A (storage m') = recordsOf A (storage m)"
  shows "getBudgetStatus m' clk i = getBudgetStatus m clk i"
proof -
  from assms(1,2) have "map_of (budgets m') i = Some b" "map_of (budgets m) i = Some b"
    by (simp_all add: getBudget_def)
  from getBudgetStatus_agent [OF this(1) assms(3)] getBudgetStatus_agent [OF this(2) assms(3)]
  show ?thesis by (simp add: assms(4))
qed

text \<open>Storing a record of another agent, new or in place of one, keeps the records of \<open>A\<close>.\<close>

lemma recordsOf_store_other:
  "agentId r \<noteq> A \<Longrightarrow> (\<And>r0. map_of s (id_r r) = Some r0 \<Longrightarrow> agentId r0 \<noteq> A) \<Longrightarrow>
   recordsOf A (store s r) = recordsOf A s"
proof (induction s)
  case Nil
  then show ?case by (simp add: recordsOf_def store_def records_def)
next
  case (Cons p s)
  show ?case
  proof (cases "fst p = id_r r")
    case True
    with Cons.prems(2) [of "snd p"] have "agentId (snd p) \<noteq> A" by (cases p) simp
    with True Cons.prems(1) show ?thesis
      by (simp add: recordsOf_def store_def records_def)
  next
    case False
    with Cons.prems(2) have "\<And>r0. map_of s (id_r r) = Some r0 \<Longrightarrow> agentId r0 \<noteq> A"
      by (cases p) auto
    from Cons.IH [OF Cons.prems(1) this] False show ?thesis
      by (simp add: recordsOf_def store_def records_def)
  qed
qed

lemma agentManager_eq:
  "agentManager =
    \<lparr>budgets = [(0, testBudget 0 10 [100] Alert (Some agentScope))], alerts = [(0, [])],
      storage = [(1000, mockRecord 1000 ''agent-1'' 3 1769862000000)]\<rparr>"
  by (simp add: agentManager_def create_eval)

theorem agent_budget_ignores_other_agents_witness:
  "budgets agentManager' = budgets agentManager
   \<and> getBudget agentManager 0 = Some (testBudget 0 10 [100] Alert (Some agentScope))
   \<and> scope (testBudget 0 10 [100] Alert (Some agentScope)) = Some \<lparr>type_s = Agent, id_s = ''agent-1''\<rparr>
   \<and> map actualCost (records (storage agentManager)) = [3]
   \<and> map actualCost (records (storage agentManager')) = [3, 5]
   \<and> recordsOf ''agent-1'' (storage agentManager') = recordsOf ''agent-1'' (storage agentManager)
   \<and> getBudgetStatus agentManager' exampleClock 0 = getBudgetStatus agentManager exampleClock 0
   \<and> map_option currentSpending (getBudgetStatus agentManager' exampleClock 0) = Some 3"
proof -
  let ?b = "testBudget 0 10 [100] Alert (Some agentScope)"
  have h1: "budgets agentManager' = budgets agentManager"
    by (simp add: agentManager'_def)
  have h2: "getBudget agentManager 0 = Some ?b"
    by (simp add: agentManager_eq getBudget_def)
  have h3: "scope ?b = Some \<lparr>type_s = Agent, id_s = ''agent-1''\<rparr>"
    by (simp add: testBudget_def agentScope_def)
  have h4: "recordsOf ''agent-1'' (storage agentManager') = recordsOf ''agent-1'' (storage agentManager)"
    by (simp add: agentManager'_def agentManager_eq recordsOf_def records_def store_def mockRecord_def)
  have v1: "map actualCost (records (storage agentManager)) = [3]"
    "map actualCost (records (storage agentManager')) = [3, 5]"
    by (simp_all add: agentManager'_def agentManager_eq records_def store_def mockRecord_def)
  have v2: "map_option currentSpending (getBudgetStatus agentManager' exampleClock 0) = Some 3"
    by (simp add: agentManager'_def agentManager_eq store_def status_eval agentScope_def)
  from agent_budget_ignores_other_agents [OF h1 h2 h3 h4, of exampleClock]
  show ?thesis using h1 h2 h3 h4 v1 v2 by blast
qed

section \<open>Properties of the usage ledger\<close>

lemma getByDateRange_inRange:
  "getByDateRange s from to = filter (inRange from to) (records s)"
  by (simp add: getByDateRange_def inRange_def [abs_def])

lemma getSummary_totals:
  "totalCost (getSummary s from to None)
     = (\<Sum>r\<leftarrow>records s. if inRange from to r then actualCost r else 0)
   \<and> totalRequests (getSummary s from to None) = length (filter (inRange from to) (records s))"
  by (simp add: getSummary_def Let_def foldl_sum getByDateRange_inRange sum_list_map_filter')

lemma getSummary_average:
  "averageCostPerRequest (getSummary s from to agent) =
     (if totalRequests (getSummary s from to agent) = 0 then 0
      else totalCost (getSummary s from to agent) / real (totalRequests (getSummary s from to agent)))"
  by (simp add: getSummary_def Let_def)

text \<open>
  C9. \<^verbatim>\<open>getSummary(from, to)\<close> aggregates exactly the records with
  \<open>from \<le> timestamp \<le> to\<close>, both ends included: the records it selects are those of
  the ledger in that range, its total is the sum over the ledger of the costs of the
  records in range (a record outside contributes nothing), its count is their number,
  and its average is the total divided by the count, or 0 when the count is zero.
\<close>

theorem getSummary_inclusive_range:
  "getByDateRange s from to = filter (inRange from to) (records s)
   \<and> totalCost (getSummary s from to None)
        = (\<Sum>r\<leftarrow>records s. if inRange from to r then actualCost r else 0)
   \<and> totalRequests (getSummary s from to None) = length (filter (inRange from to) (records s))
   \<and> averageCostPerRequest (getSummary s from to None) =
        (if totalRequests (getSummary s from to None) = 0 then 0
         else totalCost (getSummary s from to None) / real (totalRequests (getSummary s from to None)))"
  using getByDateRange_inRange [of s "from" to] getSummary_totals [of s "from" to]
    getSummary_average [of s "from" to None]
  by blast

lemma rangeStorage_eq:
  "rangeStorage = [(1, mockRecord 1 ''agent-1'' 1 99), (2, mockRecord 2 ''agent-1'' 2 100),
                   (3, mockRecord 3 ''agent-2'' 4 200), (4, mockRecord 4 ''agent-2'' 8 201)]"
  by (simp add: rangeStorage_def store_def newStorage_def mockRecord_def)

theorem getSummary_inclusive_range_witness:
  "map timestamp_r (records rangeStorage) = [99, 100, 200, 201]
   \<and> map actualCost (records rangeStorage) = [1, 2, 4, 8]
   \<and> map timestamp_r (getByDateRange rangeStorage 100 200) = [100, 200]
   \<and> totalCost (getSummary rangeStorage 100 200 None) = 6
   \<and> totalRequests (getSummary rangeStorage 100 200 None) = 2
   \<and> averageCostPerRequest (getSummary rangeStorage 100 200 None) = 3
   \<and> totalRequests (getSummary rangeStorage 300 400 None) = 0
   \<and> averageCostPerRequest (getSummary rangeStorage 300 400 None) = 0"
proof -
  have r: "map timestamp_r (records rangeStorage) = [99, 100, 200, 201]"
    "map actualCost (records rangeStorage) = [1, 2, 4, 8]"
    by (simp_all add: rangeStorage_eq records_def mockRecord_def)
  have f: "filter (inRange 100 200) (records rangeStorage)
             = [mockRecord 2 ''agent-1'' 2 100, mockRecord 3 ''agent-2'' 4 200]"
    "filter (inRange 300 400) (records rangeStorage) = []"
    by (simp_all add: rangeStorage_eq records_def mockRecord_def inRange_def)
  have s1: "(\<Sum>r\<leftarrow>records rangeStorage. if inRange 100 200 r then actualCost r else 0) = 6"
    by (simp add: rangeStorage_eq records_def mockRecord_def inRange_def)
  note T = getSummary_inclusive_range [of rangeStorage 100 200]
  from T have tg: "getByDateRange rangeStorage 100 200
      = filter (inRange 100 200) (records rangeStorage)" by blast
  have g: "map timestamp_r (getByDateRange rangeStorage 100 200) = [100, 200]"
    unfolding tg f by (simp add: mockRecord_def)
  from T have tc: "totalCost (getSummary rangeStorage 100 200 None)
      = (\<Sum>r\<leftarrow>records rangeStorage. if inRange 100 200 r then actualCost r else 0)" by blast
  have a1: "totalCost (getSummary rangeStorage 100 200 None) = 6"
    unfolding tc by (rule s1)
  from T have tr: "totalRequests (getSummary rangeStorage 100 200 None)
      = length (filter (inRange 100 200) (records rangeStorage))" by blast
  have a2: "totalRequests (getSummary rangeStorage 100 200 None) = 2"
    unfolding tr f by simp
  from T have av: "averageCostPerRequest (getSummary rangeStorage 100 200 None) =
        (if totalRequests (getSummary rangeStorage 100 200 None) = 0 then 0
         else totalCost (getSummary rangeStorage 100 200 None)
                / real (totalRequests (getSummary rangeStorage 100 200 None)))" by blast
  have a3: "averageCostPerRequest (getSummary rangeStorage 100 200 None) = 3"
    unfolding av a1 a2 by simp
  note E = getSummary_inclusive_range [of rangeStorage 300 400]
  from E have er: "totalRequests (getSummary rangeStorage 300 400 None)
      = length (filter (inRange 300 400) (records rangeStorage))" by blast
  have b1: "totalRequests (getSummary rangeStorage 300 400 None) = 0"
    unfolding er f by simp
  from E have ev: "averageCostPerRequest (getSummary rangeStorage 300 400 None) =
        (if totalRequests (getSummary rangeStorage 300 400 None) = 0 then 0
         else totalCost (getSummary rangeStorage 300 400 None)
                / real (totalRequests (getSummary rangeStorage 300 400 None)))" by blast
  have b2: "averageCostPerRequest (getSummary rangeStorage 300 400 None) = 0"
    unfolding ev b1 by simp
  from r g a1 a2 a3 b1 b2 show ?thesis by blast
qed

text \<open>
  Moving the time stamp of a stored record from inside the range to outside it (a store
  under the same id) takes its cost out of the total and the record out of the count.
\<close>

lemma records_store_replace:
  "map_of s (id_r r') = Some r \<Longrightarrow>
   \<exists>xs ys. records s = xs @ r # ys \<and> records (store s r') = xs @ r' # ys"
proof (induction s)
  case Nil
  then show ?case by simp
next
  case (Cons p s)
  show ?case
  proof (cases "fst p = id_r r'")
    case True
    with Cons.prems have "snd p = r" by (cases p) simp
    with True have "records (p # s) = [] @ r # records s
        \<and> records (store (p # s) r') = [] @ r' # records s"
      by (simp add: records_def store_def)
    then show ?thesis by blast
  next
    case False
    with Cons.prems have "map_of s (id_r r') = Some r" by (cases p) auto
    from Cons.IH [OF this] obtain xs ys
      where "records s = xs @ r # ys" "records (store s r') = xs @ r' # ys" by blast
    with False have "records (p # s) = (snd p # xs) @ r # ys
        \<and> records (store (p # s) r') = (snd p # xs) @ r' # ys"
      by (simp add: records_def store_def)
    then show ?thesis by blast
  qed
qed

lemma getSummary_move_outside:
  assumes "get s i = Some r" and "inRange from to r" and "t' < from \<or> to < t'"
  shows "totalCost (getSummary (store s (r\<lparr>id_r := i, timestamp_r := t'\<rparr>)) from to None)
           = totalCost (getSummary s from to None) - actualCost r
       \<and> Suc (totalRequests (getSummary (store s (r\<lparr>id_r := i, timestamp_r := t'\<rparr>)) from to None))
           = totalRequests (getSummary s from to None)"
proof -
  let ?r' = "r\<lparr>id_r := i, timestamp_r := t'\<rparr>"
  from assms(1) have "map_of s (id_r ?r') = Some r" by (simp add: get_def)
  from records_store_replace [OF this] obtain xs ys
    where rs: "records s = xs @ r # ys" "records (store s ?r') = xs @ ?r' # ys" by blast
  have out: "\<not> inRange from to ?r'"
    using assms(3) by (auto simp: inRange_def)
  show ?thesis
    using getSummary_totals [of s "from" to] getSummary_totals [of "store s ?r'" "from" to]
    by (simp add: rs out assms(2))
qed

section \<open>Properties of \<^verbatim>\<open>createBudget\<close>\<close>

text \<open>
  C4 (as amended). \<^verbatim>\<open>createBudget\<close> validates nothing: whatever the configuration is,
  also with a limit that is not positive or with no alert threshold, it returns the
  configuration completed with a generated id and the two time stamps, stores it under
  that id, and gives it an empty alert list. It has no failure result.
\<close>

theorem createBudget_stores_any_configuration:
  "fst (createBudget t g cfg m) =
      \<lparr>name = name cfg, limit = limit cfg, period = period cfg,
       alertThresholds = alertThresholds cfg, action = action cfg, scope = scope cfg,
       enabled = enabled cfg, id_b = g, createdAt = t, updatedAt = t\<rparr>
   \<and> getBudget (fst (snd (createBudget t g cfg m))) g = Some (fst (createBudget t g cfg m))
   \<and> getAlerts (fst (snd (createBudget t g cfg m))) g = []"
  by (simp add: createBudget_def generateId_def Let_def getBudget_def getAlerts_def update_conv')

theorem createBudget_stores_any_configuration_witness:
  "limit badInput = - 5 \<and> alertThresholds badInput = []
   \<and> limit (fst (createBudget 0 0 badInput (newBudgetManager newStorage))) = - 5
   \<and> getBudget (fst (snd (createBudget 0 0 badInput (newBudgetManager newStorage)))) 0
       = Some (fst (createBudget 0 0 badInput (newBudgetManager newStorage)))"
proof -
  have b: "limit badInput = - 5" "alertThresholds badInput = []"
    by (simp_all add: badInput_def)
  from createBudget_stores_any_configuration [of 0 0 badInput "newBudgetManager newStorage"]
  have "limit (fst (createBudget 0 0 badInput (newBudgetManager newStorage))) = limit badInput"
    and "getBudget (fst (snd (createBudget 0 0 badInput (newBudgetManager newStorage)))) 0
       = Some (fst (createBudget 0 0 badInput (newBudgetManager newStorage)))"
    by simp_all
  with b show ?thesis by simp
qed

text \<open>
  C4 as stated fails: the configuration \<open>badInput\<close>, with the limit -5 and no threshold,
  is stored by \<^verbatim>\<open>createBudget\<close>.
\<close>

theorem createBudget_rejects_invalid_counterexample:
  "limit badInput \<le> 0 \<and> alertThresholds badInput = []
   \<and> getBudget (fst (snd (createBudget 0 0 badInput (newBudgetManager newStorage)))) 0
       = Some \<lparr>name = ''Bad Budget'', limit = - 5, period = Daily, alertThresholds = [],
               action = Block, scope = None, enabled = True,
               id_b = 0, createdAt = 0, updatedAt = 0\<rparr>"
  by (simp add: createBudget_def generateId_def Let_def getBudget_def badInput_def newBudgetManager_def)


end
